theory Spec2Isabelle
  imports Main "HOL-Library.List_Lexorder" "HOL-Library.Sublist"
begin

chapter \<open>qutebrowser: completion-model builders and the virtualenv setup script\<close>

text \<open>
  A shallow embedding of \<^verbatim>\<open>qutebrowser/completion/models/miscmodels.py\<close> and of
  \<^verbatim>\<open>scripts/mkvenv.py\<close>. Python exceptions are values of \<open>pyerror\<close>; a function that
  may raise returns \<open>pyerror + 'a\<close>. Python strings are \<open>string\<close>: a character stands
  for a code point below 256.
\<close>

section \<open>Python values\<close>

datatype pyerror =
    AssertionError | IndexError | KeyError | AttributeError | ValueError
  | OSError | FileNotFoundError | PermissionError

text \<open>\<^verbatim>\<open>except OSError\<close> also catches the subclasses of \<^verbatim>\<open>OSError\<close>.\<close>

fun isinstance_OSError :: "pyerror \<Rightarrow> bool" where
  "isinstance_OSError OSError = True"
| "isinstance_OSError FileNotFoundError = True"
| "isinstance_OSError PermissionError = True"
| "isinstance_OSError _ = False"

text \<open>\<^verbatim>\<open>s.startswith(p)\<close>\<close>

definition startswith :: "string \<Rightarrow> string \<Rightarrow> bool" where
  "startswith s p = (take (length p) s = p)"

text \<open>\<^verbatim>\<open>sep.join(xs)\<close>\<close>

fun join :: "string \<Rightarrow> string list \<Rightarrow> string" where
  "join sep [] = []"
| "join sep [x] = x"
| "join sep (x # y # ys) = x @ sep @ join sep (y # ys)"

text \<open>
  \<^verbatim>\<open>s.splitlines()\<close>: the line boundaries of \<^verbatim>\<open>str.splitlines\<close> among the code points
  below 256 are LF, VT, FF, CR, FS, GS, RS and NEL; CR followed by LF is one boundary.
  A final boundary does not open a further line, and the empty string has no line.
\<close>

definition is_linebreak :: "char \<Rightarrow> bool" where
  "is_linebreak c = (c \<in> {CHR 0x0A, CHR 0x0B, CHR 0x0C, CHR 0x0D,
                          CHR 0x1C, CHR 0x1D, CHR 0x1E, CHR 0x85})"

fun splitlines :: "string \<Rightarrow> string list" where
  "splitlines [] = []"
| "splitlines [c] = (if is_linebreak c then [[]] else [[c]])"
| "splitlines (c # d # ds) =
     (if is_linebreak c then
        (if c = CHR 0x0D \<and> d = CHR 0x0A then [] # splitlines ds
         else [] # splitlines (d # ds))
      else (case splitlines (d # ds) of
              [] \<Rightarrow> [[c]]
            | l # ls \<Rightarrow> (c # l) # ls))"

text \<open>\<^verbatim>\<open>xs[0]\<close> raises \<^verbatim>\<open>IndexError\<close> on the empty list.\<close>

definition index0 :: "'a list \<Rightarrow> pyerror + 'a" where
  "index0 xs = (case xs of [] \<Rightarrow> Inl IndexError | x # _ \<Rightarrow> Inr x)"

text \<open>\<^verbatim>\<open>d.get(k, default)\<close> on a dict held as an association list.\<close>

definition dict_get :: "('k \<times> 'v) list \<Rightarrow> 'k \<Rightarrow> 'v \<Rightarrow> 'v" where
  "dict_get d k dflt = (case map_of d k of None \<Rightarrow> dflt | Some v \<Rightarrow> v)"

text \<open>\<^verbatim>\<open>'{}'.format(n)\<close> for an integer: its decimal numeral.\<close>

definition digit_char :: "nat \<Rightarrow> char" where
  "digit_char d = char_of (48 + d)"

fun str_nat :: "nat \<Rightarrow> string" where
  "str_nat n = (if n < 10 then [digit_char n]
                else str_nat (n div 10) @ [digit_char (n mod 10)])"

declare str_nat.simps [simp del]

definition str_int :: "int \<Rightarrow> string" where
  "str_int i = (if i < 0 then CHR ''-'' # str_nat (nat (- i)) else str_nat (nat i))"

text \<open>
  \<^verbatim>\<open>set(xs)\<close> followed by iteration: every distinct element once. Python leaves the
  iteration order of a set open; the model visits the elements in the order of their
  last occurrence in \<open>xs\<close>, and no statement below depends on that order beyond
  what it says.
\<close>

definition py_set :: "'a list \<Rightarrow> 'a list" where
  "py_set xs = remdups xs"

section \<open>The completion model\<close>

text \<open>
  Modelled from the spec: \<^verbatim>\<open>base.CompletionModel\<close> is not among the sources. It is the
  model that the builders populate: the keyword arguments it was constructed with, and
  its categories in creation order, each with its items in insertion order. An argument
  that a call leaves out is \<open>None\<close>, so the defaults of the absent class are not guessed.
\<close>

record item =
  item_name :: string
  item_desc :: "string option"
  item_misc :: "string option"

record category =
  cat_name :: string
  cat_items :: "item list"

datatype sort_order = AscendingOrder | DescendingOrder

datatype deleter = Delete_buffer

record completion_model =
  column_widths :: "nat list option"
  dumb_sort :: "sort_order option"
  delete_cur_item :: "deleter option"
  columns_to_filter :: "nat list option"
  categories :: "category list"

definition CompletionModel :: "nat list option \<Rightarrow> completion_model" where
  "CompletionModel cw =
     \<lparr>column_widths = cw, dumb_sort = None, delete_cur_item = None,
      columns_to_filter = None, categories = []\<rparr>"

text \<open>\<^verbatim>\<open>model.new_category(name)\<close> returns the handle of the new category: its position.\<close>

definition new_category :: "completion_model \<Rightarrow> string \<Rightarrow> completion_model \<times> nat" where
  "new_category m name =
     (m\<lparr>categories := categories m @ [\<lparr>cat_name = name, cat_items = []\<rparr>]\<rparr>,
      length (categories m))"

text \<open>
  \<^verbatim>\<open>model.new_item(cat, name, desc, misc)\<close>. The builders pass only handles that
  \<open>new_category\<close> returned; on any other handle the update leaves the list as it is.
\<close>

definition new_item ::
  "completion_model \<Rightarrow> nat \<Rightarrow> string \<Rightarrow> string option \<Rightarrow> string option \<Rightarrow> completion_model" where
  "new_item m cat name desc misc =
     m\<lparr>categories := (categories m)
         [cat := (categories m ! cat)
            \<lparr>cat_items := cat_items (categories m ! cat) @
               [\<lparr>item_name = name, item_desc = desc, item_misc = misc\<rparr>]\<rparr>]\<rparr>"

section \<open>The registries read by the builders\<close>

text \<open>A command object of \<^verbatim>\<open>cmdutils.cmd_dict\<close>.\<close>

record command_obj =
  cmd_name :: string
  cmd_desc :: string
  cmd_debug :: bool
  cmd_hide :: bool
  cmd_deprecated :: bool

text \<open>
  A section of \<^verbatim>\<open>configdata.DATA\<close>: iterating it yields the option names; its
  \<^verbatim>\<open>descriptions\<close> attribute is a dict, or is missing (\<open>None\<close>).
\<close>

record sectdata =
  optnames :: "string list"
  descriptions :: "(string \<times> string) list option"

text \<open>
  The tabbed browser of a window: \<^verbatim>\<open>count()\<close> is the number of tabs, and a tab is held
  as its \<^verbatim>\<open>url().toDisplayString()\<close> and its \<^verbatim>\<open>page_title\<close>.
\<close>

record tabbed_browser =
  shutting_down :: bool
  tabs :: "(string \<times> string) list"

text \<open>
  Everything outside the module that the builders touch. Dicts are association lists in
  iteration order. \<open>list_sessions\<close> is what the session manager's \<^verbatim>\<open>list_sessions()\<close>
  does when called: the list it returns or the exception it raises. \<open>log\<close> holds the
  messages given to \<^verbatim>\<open>log.completion.exception\<close>.
\<close>

record world =
  cmd_dict :: "(string \<times> command_obj) list"
  reverse_bindings :: "(string \<times> string list) list"
  args_debug :: bool
  aliases :: "(string \<times> string) list"
  config_data :: "(string \<times> sectdata) list"
  quickmarks :: "(string \<times> string) list"
  bookmarks :: "(string \<times> string) list"
  list_sessions :: "pyerror + string list"
  window_registry :: "(int \<times> tabbed_browser) list"
  log :: "string list"

section \<open>miscmodels.py\<close>

subsection \<open>\<^verbatim>\<open>_get_cmd_completions\<close>\<close>

text \<open>The first loop, over the command objects; \<open>cmdlist\<close> is the list being appended to.\<close>

fun cmd_loop ::
  "world \<Rightarrow> bool \<Rightarrow> string \<Rightarrow> (string \<times> string list) list \<Rightarrow> command_obj list \<Rightarrow>
   (string \<times> string \<times> string) list \<Rightarrow> (string \<times> string \<times> string) list" where
  "cmd_loop w include_hidden pfx cmd_to_keys [] cmdlist = cmdlist"
| "cmd_loop w include_hidden pfx cmd_to_keys (obj # objs) cmdlist =
     (let hide_debug = (cmd_debug obj \<and> \<not> args_debug w);
          hide_hidden = (cmd_hide obj \<and> \<not> include_hidden)
      in if \<not> (hide_debug \<or> hide_hidden \<or> cmd_deprecated obj) then
           (let bindings = join '', '' (dict_get cmd_to_keys (cmd_name obj) [])
            in cmd_loop w include_hidden pfx cmd_to_keys objs
                 (cmdlist @ [(pfx @ cmd_name obj, cmd_desc obj, bindings)]))
         else cmd_loop w include_hidden pfx cmd_to_keys objs cmdlist)"

text \<open>The second loop, over the aliases.\<close>

fun alias_loop ::
  "(string \<times> string list) list \<Rightarrow> (string \<times> string) list \<Rightarrow>
   (string \<times> string \<times> string) list \<Rightarrow> (string \<times> string \<times> string) list" where
  "alias_loop cmd_to_keys [] cmdlist = cmdlist"
| "alias_loop cmd_to_keys ((name, cmd) # rest) cmdlist =
     (let bindings = join '', '' (dict_get cmd_to_keys name [])
      in alias_loop cmd_to_keys rest
           (cmdlist @ [(name, ''Alias for '' @ [CHR 0x27] @ cmd @ [CHR 0x27], bindings)]))"

definition get_cmd_completions ::
  "world \<Rightarrow> bool \<Rightarrow> bool \<Rightarrow> string \<Rightarrow> pyerror + (string \<times> string \<times> string) list" where
  "get_cmd_completions w include_hidden include_aliases pfx =
     (if cmd_dict w = [] then Inl AssertionError
      else
        (let cmd_to_keys = reverse_bindings w;
             cmdlist = cmd_loop w include_hidden pfx cmd_to_keys
                         (py_set (map snd (cmd_dict w))) []
         in Inr (if include_aliases then alias_loop cmd_to_keys (aliases w) cmdlist
                 else cmdlist)))"

subsection \<open>The builders\<close>

text \<open>
  A builder takes the world and returns the model, or the exception that escapes it,
  together with the world it leaves behind.
\<close>

fun add_cmd_items ::
  "completion_model \<Rightarrow> nat \<Rightarrow> (string \<times> string \<times> string) list \<Rightarrow> completion_model" where
  "add_cmd_items model cat [] = model"
| "add_cmd_items model cat ((name, desc, misc) # rest) =
     add_cmd_items (new_item model cat name (Some desc) (Some misc)) cat rest"

definition command :: "world \<Rightarrow> (pyerror + completion_model) \<times> world" where
  "command w =
     (let model = CompletionModel (Some [20, 60, 20])
      in case get_cmd_completions w False True [] of
           Inl e \<Rightarrow> (Inl e, w)
         | Inr cmdlist \<Rightarrow>
             (let (model, cat) = new_category model ''Commands''
              in (Inr (add_cmd_items model cat cmdlist), w)))"

text \<open>
  The body of the inner loop of \<^verbatim>\<open>helptopic\<close>: the lookup \<^verbatim>\<open>sectdata.descriptions[optname]\<close>
  raises \<^verbatim>\<open>AttributeError\<close> without the attribute and \<^verbatim>\<open>KeyError\<close> without the key; the
  \<^verbatim>\<open>else\<close> branch of the \<^verbatim>\<open>try\<close> is outside the handler.
\<close>

definition lookup_description :: "sectdata \<Rightarrow> string \<Rightarrow> pyerror + string" where
  "lookup_description sd optname =
     (case descriptions sd of
        None \<Rightarrow> Inl AttributeError
      | Some d \<Rightarrow> (case map_of d optname of None \<Rightarrow> Inl KeyError | Some x \<Rightarrow> Inr x))"

fun opt_loop ::
  "completion_model \<Rightarrow> nat \<Rightarrow> string \<Rightarrow> sectdata \<Rightarrow> string list \<Rightarrow> pyerror + completion_model" where
  "opt_loop model cat sectname sd [] = Inr model"
| "opt_loop model cat sectname sd (optname # rest) =
     (case (case lookup_description sd optname of
              Inl e \<Rightarrow> (if e = KeyError \<or> e = AttributeError then Inr [] else Inl e)
            | Inr desc \<Rightarrow> index0 (splitlines desc)) of
        Inl e \<Rightarrow> Inl e
      | Inr desc \<Rightarrow>
          (let name = sectname @ ''->'' @ optname
           in opt_loop (new_item model cat name (Some desc) None) cat sectname sd rest))"

fun sect_loop ::
  "completion_model \<Rightarrow> nat \<Rightarrow> (string \<times> sectdata) list \<Rightarrow> pyerror + completion_model" where
  "sect_loop model cat [] = Inr model"
| "sect_loop model cat ((sectname, sd) # rest) =
     (case opt_loop model cat sectname sd (optnames sd) of
        Inl e \<Rightarrow> Inl e
      | Inr model' \<Rightarrow> sect_loop model' cat rest)"

definition helptopic :: "world \<Rightarrow> (pyerror + completion_model) \<times> world" where
  "helptopic w =
     (let model = CompletionModel None
      in case get_cmd_completions w True False '':'' of
           Inl e \<Rightarrow> (Inl e, w)
         | Inr cmdlist \<Rightarrow>
             (let (model, cat) = new_category model ''Commands'';
                  model = add_cmd_items model cat cmdlist;
                  (model, cat) = new_category model ''Settings''
              in (sect_loop model cat (config_data w), w)))"

fun mark_loop :: "completion_model \<Rightarrow> nat \<Rightarrow> (string \<times> string) list \<Rightarrow> completion_model" where
  "mark_loop model cat [] = model"
| "mark_loop model cat ((k, v) # rest) = mark_loop (new_item model cat k (Some v) None) cat rest"

definition quickmark :: "world \<Rightarrow> (pyerror + completion_model) \<times> world" where
  "quickmark w =
     (let model = CompletionModel None;
          (model, cat) = new_category model ''Quickmarks'';
          quickmarks = quickmarks w
      in (Inr (mark_loop model cat quickmarks), w))"

definition bookmark :: "world \<Rightarrow> (pyerror + completion_model) \<times> world" where
  "bookmark w =
     (let model = CompletionModel None;
          (model, cat) = new_category model ''Bookmarks'';
          bookmarks = bookmarks w
      in (Inr (mark_loop model cat bookmarks), w))"

fun session_loop :: "completion_model \<Rightarrow> nat \<Rightarrow> string list \<Rightarrow> completion_model" where
  "session_loop model cat [] = model"
| "session_loop model cat (name # rest) =
     (if \<not> startswith name ''_'' then session_loop (new_item model cat name None None) cat rest
      else session_loop model cat rest)"

definition session :: "world \<Rightarrow> (pyerror + completion_model) \<times> world" where
  "session w =
     (let model = CompletionModel None;
          (model, cat) = new_category model ''Sessions''
      in case list_sessions w of
           Inr names \<Rightarrow> (Inr (session_loop model cat names), w)
         | Inl e \<Rightarrow>
             (if isinstance_OSError e
              then (Inr model, w\<lparr>log := log w @ [''Failed to list sessions!'']\<rparr>)
              else (Inl e, w)))"

text \<open>The inner loop of \<^verbatim>\<open>buffer\<close>, \<^verbatim>\<open>for idx in range(tabbed_browser.count())\<close>, from \<open>idx\<close> on.\<close>

fun tab_loop ::
  "completion_model \<Rightarrow> nat \<Rightarrow> int \<Rightarrow> nat \<Rightarrow> (string \<times> string) list \<Rightarrow> completion_model" where
  "tab_loop model c win_id idx [] = model"
| "tab_loop model c win_id idx ((url, title) # rest) =
     tab_loop (new_item model c (str_int win_id @ ''/'' @ str_nat (idx + 1)) (Some url) (Some title))
       c win_id (idx + 1) rest"

fun win_loop :: "completion_model \<Rightarrow> (int \<times> tabbed_browser) list \<Rightarrow> completion_model" where
  "win_loop model [] = model"
| "win_loop model ((win_id, tb) # rest) =
     (if shutting_down tb then win_loop model rest
      else (let (model, c) = new_category model (str_int win_id)
            in win_loop (tab_loop model c win_id 0 (tabs tb)) rest))"

definition buffer :: "world \<Rightarrow> (pyerror + completion_model) \<times> world" where
  "buffer w =
     (let idx_column = 0; url_column = 1; text_column = 2;
          model = (CompletionModel (Some [6, 40, 54]))
                    \<lparr>dumb_sort := Some DescendingOrder,
                     delete_cur_item := Some Delete_buffer,
                     columns_to_filter := Some [idx_column, url_column, text_column]\<rparr>
      in (Inr (win_loop model (window_registry w)), w))"

definition bind :: "'a \<Rightarrow> world \<Rightarrow> (pyerror + completion_model) \<times> world" where
  "bind _ w =
     (let model = CompletionModel (Some [20, 60, 20])
      in case get_cmd_completions w True True [] of
           Inl e \<Rightarrow> (Inl e, w)
         | Inr cmdlist \<Rightarrow>
             (let (model, cat) = new_category model ''Commands''
              in (Inr (add_cmd_items model cat cmdlist), w)))"

section \<open>mkvenv.py\<close>

subsection \<open>The script's surroundings\<close>

text \<open>
  What the script does to the outside is recorded, in order, as a trace of events:
  printing (\<^verbatim>\<open>print\<close>, \<^verbatim>\<open>utils.print_col\<close>, \<^verbatim>\<open>utils.print_title\<close>),
  \<^verbatim>\<open>utils.change_cwd\<close>, \<^verbatim>\<open>shutil.rmtree\<close>, \<^verbatim>\<open>venv.create\<close>, \<^verbatim>\<open>subprocess.run\<close> and the
  two calls into \<^verbatim>\<open>link_pyqt\<close>.
\<close>

datatype event =
    Print string
  | Print_col string string
  | Print_title string
  | Change_cwd
  | Rmtree string
  | Venv_create string bool
  | Subprocess_run "string list"
  | Get_venv_lib_path string
  | Link_pyqt string string

text \<open>
  A process started by \<^verbatim>\<open>subprocess.run\<close> ends with a return code, or cannot be started
  at all, and then \<^verbatim>\<open>subprocess.run\<close> raises.
\<close>

datatype proc_result = Exited int | Spawn_error pyerror

text \<open>
  The surroundings: \<^verbatim>\<open>os.name\<close>, the module constant \<^verbatim>\<open>REPO_ROOT\<close>, \<^verbatim>\<open>sys.executable\<close>,
  how a subprocess ends (given everything done so far and its argument vector) and what
  \<^verbatim>\<open>link_pyqt.get_venv_lib_path\<close> returns. Library calls other than
  \<^verbatim>\<open>subprocess.run\<close> are taken to succeed.
\<close>

record environ =
  os_name :: string
  REPO_ROOT :: string
  sys_executable :: string
  subprocess_run :: "event list \<Rightarrow> string list \<Rightarrow> proc_result"
  get_venv_lib_path :: "string \<Rightarrow> string"

text \<open>The state: the trace so far and the paths that exist.\<close>

record sys_state =
  trace :: "event list"
  existing :: "string set"

text \<open>A call returns, leaves through \<^verbatim>\<open>sys.exit(code)\<close>, or raises.\<close>

datatype outcome = Returned | Sys_exit int | Raised pyerror

type_synonym proc = "sys_state \<Rightarrow> outcome \<times> sys_state"

definition skip :: proc where
  "skip s = (Returned, s)"

definition emit :: "event \<Rightarrow> proc" where
  "emit e s = (Returned, s\<lparr>trace := trace s @ [e]\<rparr>)"

definition sys_exit :: "int \<Rightarrow> proc" where
  "sys_exit code s = (Sys_exit code, s)"

definition raise :: "pyerror \<Rightarrow> proc" where
  "raise e s = (Raised e, s)"

text \<open>Statements one after the other: the first that does not return ends the sequence.\<close>

fun do_all :: "proc list \<Rightarrow> proc" where
  "do_all [] s = (Returned, s)"
| "do_all (f # fs) s =
     (case f s of
        (Returned, s') \<Rightarrow> do_all fs s'
      | (out, s') \<Rightarrow> (out, s'))"

text \<open>
  \<^verbatim>\<open>str(a / b)\<close> for paths: the operands joined by the separator of the platform.
  What \<^verbatim>\<open>pathlib\<close> does beyond that to the text of a path is not modelled.
\<close>

definition path_sep :: "environ \<Rightarrow> string" where
  "path_sep env = (if os_name env = ''nt'' then [CHR 0x5C] else ''/'')"

definition path_div :: "environ \<Rightarrow> string \<Rightarrow> string \<Rightarrow> string" where
  "path_div env a b = a @ path_sep env @ b"

subsection \<open>\<^verbatim>\<open>run_venv\<close> and \<^verbatim>\<open>pip_install\<close>\<close>

definition run_venv :: "environ \<Rightarrow> string \<Rightarrow> string \<Rightarrow> string list \<Rightarrow> proc" where
  "run_venv env venv_dir executable args s =
     (let subdir = (if os_name env = ''nt'' then ''Scripts'' else ''bin'');
          argv = [path_div env (path_div env venv_dir subdir) executable] @ args;
          s' = s\<lparr>trace := trace s @ [Subprocess_run argv]\<rparr>
      in case subprocess_run env (trace s) argv of
           Spawn_error e \<Rightarrow> (Raised e, s')
         | Exited returncode \<Rightarrow>
             (if returncode = 0 then (Returned, s')
              else do_all [emit (Print_col ''Subprocess failed, exiting'' ''red''),
                           sys_exit returncode] s'))"

definition pip_install :: "environ \<Rightarrow> string \<Rightarrow> string list \<Rightarrow> proc" where
  "pip_install env venv_dir args =
     (let arg_str = join '' '' args
      in do_all [emit (Print_col (''venv$ pip install '' @ arg_str) ''blue''),
                 run_venv env venv_dir ''python3'' ([''-m'', ''pip'', ''install''] @ args)])"

subsection \<open>The steps\<close>

definition show_tox_error :: "string \<Rightarrow> proc" where
  "show_tox_error pyqt_type =
     (if pyqt_type = ''link'' then
        do_all [emit (Print []),
                emit (Print_col (''tox -e '' @ ''mkvenv'' @
                        '' is deprecated. Please use scripts/mkvenv.py'' @
                        '' --pyqt-type link'' @ '' instead.'') ''red''),
                emit (Print [])]
      else if pyqt_type = ''binary'' then
        do_all [emit (Print []),
                emit (Print_col (''tox -e '' @ ''mkvenv-pypi'' @
                        '' is deprecated. Please use scripts/mkvenv.py'' @
                        [] @ '' instead.'') ''red''),
                emit (Print [])]
      else raise AssertionError)"

definition rmtree :: "string \<Rightarrow> proc" where
  "rmtree p s = (Returned, s\<lparr>trace := trace s @ [Rmtree p], existing := existing s - {p}\<rparr>)"

definition venv_create :: "string \<Rightarrow> bool \<Rightarrow> proc" where
  "venv_create p with_pip s =
     (Returned, s\<lparr>trace := trace s @ [Venv_create p with_pip], existing := insert p (existing s)\<rparr>)"

definition delete_old_venv :: "string \<Rightarrow> proc" where
  "delete_old_venv venv_dir s =
     (if venv_dir \<in> existing s then
        do_all [emit (Print_col (''$ rm -r '' @ venv_dir) ''blue''),
                rmtree venv_dir] s
      else (Returned, s))"

definition create_venv :: "string \<Rightarrow> proc" where
  "create_venv venv_dir =
     do_all [emit (Print_col (''$ python3 -m venv '' @ venv_dir) ''blue''),
             venv_create venv_dir True]"

definition upgrade_pip :: "environ \<Rightarrow> string \<Rightarrow> proc" where
  "upgrade_pip env venv_dir =
     do_all [emit (Print_title ''Upgrading pip''),
             pip_install env venv_dir [''-U'', ''pip'']]"

definition pyqt_requirements_file :: "environ \<Rightarrow> string \<Rightarrow> string" where
  "pyqt_requirements_file env version =
     (let suffix = (if version = ''auto'' then [] else ''-'' @ version)
      in path_div env (path_div env (path_div env (REPO_ROOT env) ''misc'') ''requirements'')
           (''requirements-pyqt'' @ suffix @ ''.txt''))"

definition install_pyqt_binary :: "environ \<Rightarrow> string \<Rightarrow> string \<Rightarrow> proc" where
  "install_pyqt_binary env venv_dir version =
     do_all [emit (Print_title ''Installing PyQt from binary''),
             emit (Print_col (''No proprietary codec support will be available in '' @
                              ''qutebrowser.'') ''red''),
             pip_install env venv_dir
               [''-r'', pyqt_requirements_file env version,
                ''--only-binary'', ''PyQt5,PyQtWebEngine'']]"

definition install_pyqt_source :: "environ \<Rightarrow> string \<Rightarrow> string \<Rightarrow> proc" where
  "install_pyqt_source env venv_dir version =
     do_all [emit (Print_title ''Installing PyQt from sources''),
             pip_install env venv_dir
               [''-r'', pyqt_requirements_file env version,
                ''--verbose'', ''--no-binary'', ''PyQt5,PyQtWebEngine'']]"

definition install_pyqt_link :: "environ \<Rightarrow> string \<Rightarrow> proc" where
  "install_pyqt_link env venv_dir =
     (let lib_path = get_venv_lib_path env venv_dir
      in do_all [emit (Print_title ''Linking system-wide PyQt''),
                 emit (Get_venv_lib_path venv_dir),
                 emit (Link_pyqt (sys_executable env) lib_path)])"

definition install_requirements :: "environ \<Rightarrow> string \<Rightarrow> proc" where
  "install_requirements env venv_dir =
     (let requirements_file = path_div env (REPO_ROOT env) ''requirements.txt''
      in do_all [emit (Print_title ''Installing other qutebrowser dependencies''),
                 pip_install env venv_dir [''-r'', requirements_file]])"

definition install_qutebrowser :: "environ \<Rightarrow> string \<Rightarrow> proc" where
  "install_qutebrowser env venv_dir =
     do_all [emit (Print_title ''Installing qutebrowser''),
             pip_install env venv_dir [''-e'', REPO_ROOT env]]"

subsection \<open>\<^verbatim>\<open>main\<close>\<close>

text \<open>The namespace that \<^verbatim>\<open>parse_args\<close> returns.\<close>

record namespace =
  keep :: bool
  venv_dir :: string
  pyqt_version :: string
  pyqt_type :: string
  tox_error :: bool

text \<open>\<^verbatim>\<open>main\<close> from the line after \<^verbatim>\<open>args = parse_args()\<close>.\<close>

definition main :: "environ \<Rightarrow> namespace \<Rightarrow> proc" where
  "main env args =
     (let venv_dir = venv_dir args
      in do_all
           [emit Change_cwd,
            (if tox_error args then
               do_all [show_tox_error (pyqt_type args), sys_exit 1]
             else skip),
            (if \<not> keep args then
               do_all [emit (Print_title ''Creating virtual environment''),
                       delete_old_venv venv_dir,
                       create_venv venv_dir]
             else skip),
            upgrade_pip env venv_dir,
            (if pyqt_type args = ''binary'' then
               install_pyqt_binary env venv_dir (pyqt_version args)
             else if pyqt_type args = ''source'' then
               install_pyqt_source env venv_dir (pyqt_version args)
             else if pyqt_type args = ''link'' then
               install_pyqt_link env venv_dir
             else raise AssertionError),
            install_requirements env venv_dir,
            install_qutebrowser env venv_dir])"

subsection \<open>\<^verbatim>\<open>pyqt_versions\<close>\<close>

text \<open>\<^verbatim>\<open>s.endswith(p)\<close>\<close>

definition endswith :: "string \<Rightarrow> string \<Rightarrow> bool" where
  "endswith s p = (length p \<le> length s \<and> drop (length s - length p) s = p)"

text \<open>
  A name matches the pattern \<^verbatim>\<open>requirements-pyqt-*.txt\<close> when it begins with the text
  before the star and ends with the text after it, the two not overlapping. Matching is
  case-sensitive, as on POSIX.
\<close>

definition glob_match :: "string \<Rightarrow> bool" where
  "glob_match name =
     (startswith name ''requirements-pyqt-'' \<and> endswith name ''.txt'' \<and>
      length ''requirements-pyqt-'' + length ''.txt'' \<le> length name)"

text \<open>
  \<^verbatim>\<open>PurePath.stem\<close> of a file name: the name up to its last dot, when that dot is neither
  the first nor the last character.
\<close>

definition stem :: "string \<Rightarrow> string" where
  "stem name =
     (if CHR ''.'' \<in> set name then
        (let i = length name - 1 - length (takeWhile (\<lambda>c. c \<noteq> CHR ''.'') (rev name))
         in if 0 < i \<and> i < length name - 1 then take i name else name)
      else name)"

text \<open>\<^verbatim>\<open>s.split(sep)\<close> for a separator of one character; the result is never empty.\<close>

fun py_split :: "char \<Rightarrow> string \<Rightarrow> string list" where
  "py_split sep [] = [[]]"
| "py_split sep (c # cs) =
     (if c = sep then [] # py_split sep cs
      else (case py_split sep cs of
              [] \<Rightarrow> [[c]]
            | l # ls \<Rightarrow> (c # l) # ls))"

text \<open>
  \<^verbatim>\<open>int(s)\<close> for a string: white space around is dropped, then comes an optional sign,
  then decimal digits, where single underscores may stand between digits. Anything else
  raises \<^verbatim>\<open>ValueError\<close>. (The limit that recent interpreters put on the number of digits
  is not modelled.)
\<close>

definition is_space :: "char \<Rightarrow> bool" where
  "is_space c = (c \<in> {CHR 0x09, CHR 0x0A, CHR 0x0B, CHR 0x0C, CHR 0x0D,
                      CHR 0x1C, CHR 0x1D, CHR 0x1E, CHR 0x1F, CHR 0x20, CHR 0x85, CHR 0xA0})"

definition strip :: "string \<Rightarrow> string" where
  "strip s = rev (dropWhile is_space (rev (dropWhile is_space s)))"

definition is_digit :: "char \<Rightarrow> bool" where
  "is_digit c = (48 \<le> (of_char c :: nat) \<and> (of_char c :: nat) \<le> 57)"

fun digits_value :: "string \<Rightarrow> nat \<Rightarrow> nat option" where
  "digits_value [] acc = Some acc"
| "digits_value (c # cs) acc =
     (if is_digit c then digits_value cs (10 * acc + (of_char c - 48))
      else if c = CHR ''_'' then
        (case cs of
           [] \<Rightarrow> None
         | d # _ \<Rightarrow> if is_digit d then digits_value cs acc else None)
      else None)"

definition unsigned_value :: "string \<Rightarrow> nat option" where
  "unsigned_value s =
     (case s of
        [] \<Rightarrow> None
      | c # _ \<Rightarrow> if is_digit c then digits_value s 0 else None)"

definition py_int :: "string \<Rightarrow> pyerror + int" where
  "py_int s =
     (case strip s of
        [] \<Rightarrow> Inl ValueError
      | c # cs \<Rightarrow>
          (if c = CHR ''-'' then
             (case unsigned_value cs of None \<Rightarrow> Inl ValueError | Some n \<Rightarrow> Inr (- int n))
           else if c = CHR ''+'' then
             (case unsigned_value cs of None \<Rightarrow> Inl ValueError | Some n \<Rightarrow> Inr (int n))
           else
             (case unsigned_value (c # cs) of None \<Rightarrow> Inl ValueError | Some n \<Rightarrow> Inr (int n))))"

text \<open>A list comprehension whose element expression may raise: the first exception wins.\<close>

fun collect :: "(pyerror + 'a) list \<Rightarrow> pyerror + 'a list" where
  "collect [] = Inr []"
| "collect (Inl e # rs) = Inl e"
| "collect (Inr x # rs) = (case collect rs of Inl e \<Rightarrow> Inl e | Inr xs \<Rightarrow> Inr (x # xs))"

text \<open>The sort key \<^verbatim>\<open>lambda v: [int(c) for c in v.split('.')]\<close>.\<close>

definition version_key :: "string \<Rightarrow> pyerror + int list" where
  "version_key v = collect (map py_int (py_split CHR ''.'' v))"

text \<open>
  \<^verbatim>\<open>sorted(xs, key=f)\<close>: the keys are computed first, then the elements are sorted by
  key, stably. Lists of integers compare lexicographically.
\<close>

definition sorted_by :: "('a \<Rightarrow> pyerror + int list) \<Rightarrow> 'a list \<Rightarrow> pyerror + 'a list" where
  "sorted_by f xs =
     (case collect (map f xs) of
        Inl e \<Rightarrow> Inl e
      | Inr ks \<Rightarrow> Inr (map snd (sort_key fst (zip ks xs))))"

text \<open>
  \<^verbatim>\<open>pyqt_versions\<close>; \<open>listing\<close> holds the names of the entries of the directory
  \<^verbatim>\<open>misc/requirements\<close> under \<^verbatim>\<open>REPO_ROOT\<close>.
\<close>

definition pyqt_versions :: "string list \<Rightarrow> pyerror + string list" where
  "pyqt_versions listing =
     (let version_set = py_set (map (\<lambda>req. last (py_split CHR ''-'' (stem req)))
                                  (filter glob_match listing))
      in case sorted_by version_key version_set of
           Inl e \<Rightarrow> Inl e
         | Inr versions \<Rightarrow> Inr (versions @ [''auto'']))"

subsection \<open>\<^verbatim>\<open>parse_args\<close>\<close>

text \<open>
  An option of the parser: its option strings, its action, its default, its choices and
  its help. \<^verbatim>\<open>Help_action\<close> is the action of the option \<^verbatim>\<open>-h\<close>/\<^verbatim>\<open>--help\<close>.
\<close>

datatype action = Store | Store_true | Help_action

datatype help_text = Help string | SUPPRESS

record argument =
  option_strings :: "string list"
  action :: action
  dflt :: "string option"
  choices :: "string list option"
  help_msg :: help_text

text \<open>
  The parser that \<^verbatim>\<open>parse_args\<close> builds; \<open>versions\<close> is what \<^verbatim>\<open>pyqt_versions()\<close>
  returned. \<^verbatim>\<open>ArgumentParser(description=__doc__)\<close> leaves \<^verbatim>\<open>add_help\<close> at its default,
  so the parser starts with the option \<^verbatim>\<open>-h\<close>/\<^verbatim>\<open>--help\<close>; the five \<^verbatim>\<open>add_argument\<close>
  calls follow.
\<close>

definition parser :: "string list \<Rightarrow> argument list" where
  "parser versions =
     [\<lparr>option_strings = [''-h'', ''--help''], action = Help_action, dflt = None,
       choices = None, help_msg = Help ''show this help message and exit''\<rparr>,
      \<lparr>option_strings = [''--keep''], action = Store_true, dflt = None, choices = None,
       help_msg = Help ''Reuse an existing virtualenv.''\<rparr>,
      \<lparr>option_strings = [''--venv-dir''], action = Store, dflt = Some ''.venv'',
       choices = None, help_msg = Help ''Where to place the virtualenv.''\<rparr>,
      \<lparr>option_strings = [''--pyqt-version''], action = Store, dflt = Some ''auto'',
       choices = Some versions, help_msg = Help ''PyQt version to install''\<rparr>,
      \<lparr>option_strings = [''--pyqt-type''], action = Store, dflt = Some ''binary'',
       choices = Some [''binary'', ''source'', ''link''],
       help_msg = Help ''How to install PyQt/Qt.''\<rparr>,
      \<lparr>option_strings = [''--tox-error''], action = Store_true, dflt = None, choices = None,
       help_msg = SUPPRESS\<rparr>]"

text \<open>
  What \<^verbatim>\<open>argparse\<close> does with such a parser, for command lines written with the full
  option names and each value as a word of its own. The attribute that an option sets is
  named after its first long option string (its first option string, if none is long):
  without the leading dashes and with \<open>_\<close> for \<open>-\<close>.
\<close>

definition dest :: "string \<Rightarrow> string" where
  "dest opt = map (\<lambda>c. if c = CHR ''-'' then CHR ''_'' else c) (dropWhile (\<lambda>c. c = CHR ''-'') opt)"

definition dest_of :: "argument \<Rightarrow> string" where
  "dest_of a =
     (case filter (\<lambda>opt. startswith opt ''--'') (option_strings a) of
        long # _ \<Rightarrow> dest long
      | [] \<Rightarrow> (case option_strings a of [] \<Rightarrow> [] | opt # _ \<Rightarrow> dest opt))"

definition setattr_str :: "string \<Rightarrow> string \<Rightarrow> namespace \<Rightarrow> namespace" where
  "setattr_str d v ns =
     (if d = ''venv_dir'' then ns\<lparr>venv_dir := v\<rparr>
      else if d = ''pyqt_version'' then ns\<lparr>pyqt_version := v\<rparr>
      else if d = ''pyqt_type'' then ns\<lparr>pyqt_type := v\<rparr>
      else ns)"

definition setattr_bool :: "string \<Rightarrow> bool \<Rightarrow> namespace \<Rightarrow> namespace" where
  "setattr_bool d b ns =
     (if d = ''keep'' then ns\<lparr>keep := b\<rparr>
      else if d = ''tox_error'' then ns\<lparr>tox_error := b\<rparr>
      else ns)"

text \<open>
  Before any word is read, every attribute holds its default; the help option has no
  attribute.
\<close>

fun defaults :: "argument list \<Rightarrow> namespace \<Rightarrow> namespace" where
  "defaults [] ns = ns"
| "defaults (a # as) ns =
     defaults as
       (case action a of
          Help_action \<Rightarrow> ns
        | Store_true \<Rightarrow> setattr_bool (dest_of a) False ns
        | Store \<Rightarrow> (case dflt a of
                      None \<Rightarrow> ns
                    | Some v \<Rightarrow> setattr_str (dest_of a) v ns))"

text \<open>
  The outcome of parsing: a namespace; the help, after which \<^verbatim>\<open>argparse\<close> ends the
  process with exit status 0; the usage error, with which it ends the process with exit
  status 2; an exception raised while the parser is built; or a command line outside the
  modelled fragment (an abbreviated option, \<^verbatim>\<open>--opt=value\<close>, or any other word that
  begins with a dash and is not an option string of the parser).
\<close>

datatype parse_result = Parsed namespace | Help_exit | Usage_error | Raises pyerror | Outside_model

definition all_option_strings :: "argument list \<Rightarrow> string list" where
  "all_option_strings ps = concat (map option_strings ps)"

definition in_fragment :: "argument list \<Rightarrow> string list \<Rightarrow> bool" where
  "in_fragment ps argv =
     list_all (\<lambda>tok. tok \<in> set (all_option_strings ps) \<or> \<not> startswith tok ''-'') argv"

text \<open>
  The words are read from left to right. A word that is no option string and is not the
  value of an option is left over (\<open>extras\<close>); left-over words are an error once all
  words are read. The help option ends the process where it stands; an option without
  its value, or with a value outside its choices, is an error where it stands.
\<close>

fun parse_loop :: "argument list \<Rightarrow> string list \<Rightarrow> namespace \<Rightarrow> bool \<Rightarrow> parse_result" where
  "parse_loop ps [] ns extras = (if extras then Usage_error else Parsed ns)"
| "parse_loop ps (tok # rest) ns extras =
     (case find (\<lambda>a. tok \<in> set (option_strings a)) ps of
        None \<Rightarrow> parse_loop ps rest ns True
      | Some a \<Rightarrow>
          (case action a of
             Help_action \<Rightarrow> Help_exit
           | Store_true \<Rightarrow> parse_loop ps rest (setattr_bool (dest_of a) True ns) extras
           | Store \<Rightarrow>
               (case rest of
                  [] \<Rightarrow> Usage_error
                | v # rest' \<Rightarrow>
                    if v \<in> set (all_option_strings ps) then Usage_error
                    else if (case choices a of None \<Rightarrow> False | Some cs \<Rightarrow> v \<notin> set cs)
                    then Usage_error
                    else parse_loop ps rest' (setattr_str (dest_of a) v ns) extras)))"

definition parse_args :: "string list \<Rightarrow> string list \<Rightarrow> parse_result" where
  "parse_args listing argv =
     (case pyqt_versions listing of
        Inl e \<Rightarrow> Raises e
      | Inr versions \<Rightarrow>
          (let ps = parser versions
           in if \<not> in_fragment ps argv then Outside_model
              else parse_loop ps argv
                     (defaults ps \<lparr>keep = False, venv_dir = [], pyqt_version = [],
                                   pyqt_type = [], tox_error = False\<rparr>)
                     False))"

section \<open>Notions used in the statements\<close>

subsection \<open>Completion models\<close>

text \<open>The model \<open>m\<close> with the items \<open>its\<close> appended to its category \<open>cat\<close>.\<close>

definition extend_category :: "completion_model \<Rightarrow> nat \<Rightarrow> item list \<Rightarrow> completion_model" where
  "extend_category m cat its =
     m\<lparr>categories := (categories m)
         [cat := (categories m ! cat)\<lparr>cat_items := cat_items (categories m ! cat) @ its\<rparr>]\<rparr>"

text \<open>All items of a model, whatever their category.\<close>

definition all_items :: "completion_model \<Rightarrow> item list" where
  "all_items m = concat (map cat_items (categories m))"





text \<open>The registries of a world: everything except the log.\<close>

definition registries ::
  "world \<Rightarrow> (string \<times> command_obj) list \<times> (string \<times> string list) list \<times> bool \<times>
     (string \<times> string) list \<times> (string \<times> sectdata) list \<times> (string \<times> string) list \<times>
     (string \<times> string) list \<times> (pyerror + string list) \<times> (int \<times> tabbed_browser) list" where
  "registries w =
     (cmd_dict w, reverse_bindings w, args_debug w, aliases w, config_data w,
      quickmarks w, bookmarks w, list_sessions w, window_registry w)"

text \<open>The completion tuple of a command object, and that of an alias.\<close>

definition cmd_entry :: "world \<Rightarrow> string \<Rightarrow> command_obj \<Rightarrow> string \<times> string \<times> string" where
  "cmd_entry w pfx obj =
     (pfx @ cmd_name obj, cmd_desc obj,
      join '', '' (dict_get (reverse_bindings w) (cmd_name obj) []))"

definition alias_entry :: "world \<Rightarrow> string \<times> string \<Rightarrow> string \<times> string \<times> string" where
  "alias_entry w a =
     (fst a, ''Alias for '' @ [CHR 0x27] @ snd a @ [CHR 0x27],
      join '', '' (dict_get (reverse_bindings w) (fst a) []))"

text \<open>The first line of a text: everything before its first line boundary.\<close>

definition first_line :: "string \<Rightarrow> string" where
  "first_line d = takeWhile (\<lambda>c. \<not> is_linebreak c) d"

text \<open>
  The item expected for an option: the empty description when the lookup fails, the
  first line of the description otherwise.
\<close>

definition setting_item :: "string \<Rightarrow> sectdata \<Rightarrow> string \<Rightarrow> item" where
  "setting_item sectname sd optname =
     \<lparr>item_name = sectname @ ''->'' @ optname,
      item_desc = Some (case lookup_description sd optname of
                          Inl e \<Rightarrow> []
                        | Inr d \<Rightarrow> first_line d),
      item_misc = None\<rparr>"

subsection \<open>Example data\<close>

definition example_world :: world where
  "example_world =
     \<lparr>cmd_dict =
        [(''open'', \<lparr>cmd_name = ''open'', cmd_desc = ''Open a URL.'', cmd_debug = False,
                    cmd_hide = False, cmd_deprecated = False\<rparr>),
         (''old'', \<lparr>cmd_name = ''old'', cmd_desc = ''Old.'', cmd_debug = False,
                   cmd_hide = False, cmd_deprecated = True\<rparr>),
         (''dbg'', \<lparr>cmd_name = ''dbg'', cmd_desc = ''Debug.'', cmd_debug = True,
                   cmd_hide = False, cmd_deprecated = False\<rparr>),
         (''hid'', \<lparr>cmd_name = ''hid'', cmd_desc = ''Hidden.'', cmd_debug = False,
                   cmd_hide = True, cmd_deprecated = False\<rparr>)],
      reverse_bindings = [(''open'', [''o'', ''go''])],
      args_debug = False,
      aliases = [(''w'', ''session-save'')],
      config_data =
        [(''general'', \<lparr>optnames = [''ignore-case'', ''startpage''],
                        descriptions = Some [(''ignore-case'',
                                              ''Whether'' @ [CHR 0x0A] @ ''more'')]\<rparr>),
         (''searchengines'', \<lparr>optnames = [''DEFAULT''], descriptions = None\<rparr>)],
      quickmarks = [(''qb'', ''https://qutebrowser.org'')],
      bookmarks = [(''https://example.org'', ''Example'')],
      list_sessions = Inr [''default'', ''_autosave'', ''work''],
      window_registry =
        [(0, \<lparr>shutting_down = False, tabs = [(''u1'', ''t1''), (''u2'', ''t2'')]\<rparr>),
         (1, \<lparr>shutting_down = True, tabs = [(''u3'', ''t3'')]\<rparr>)],
      log = []\<rparr>"


subsection \<open>Traces of the setup script\<close>

text \<open>The steps of a trace: its events other than printing.\<close>

fun is_step :: "event \<Rightarrow> bool" where
  "is_step (Print _) = False"
| "is_step (Print_col _ _) = False"
| "is_step (Print_title _) = False"
| "is_step _ = True"

definition steps_of :: "event list \<Rightarrow> event list" where
  "steps_of t = filter is_step t"

text \<open>The events that delete or create a directory.\<close>

fun destroys :: "event \<Rightarrow> bool" where
  "destroys (Rmtree _) = True"
| "destroys (Venv_create _ _) = True"
| "destroys _ = False"

text \<open>The argument vector of an executable of the virtualenv, and that of \<^verbatim>\<open>pip install\<close>.\<close>

definition venv_argv :: "environ \<Rightarrow> string \<Rightarrow> string \<Rightarrow> string list \<Rightarrow> string list" where
  "venv_argv env vd exe args =
     path_div env (path_div env vd (if os_name env = ''nt'' then ''Scripts'' else ''bin'')) exe # args"

definition pip_argv :: "environ \<Rightarrow> string \<Rightarrow> string list \<Rightarrow> string list" where
  "pip_argv env vd args = venv_argv env vd ''python3'' ([''-m'', ''pip'', ''install''] @ args)"

text \<open>The message that \<^verbatim>\<open>run_venv\<close> prints before it exits.\<close>

definition failure_message :: event where
  "failure_message = Print_col ''Subprocess failed, exiting'' ''red''"

text \<open>
  In the trace \<open>t\<close>, the event at position \<open>i\<close> is a subprocess that ended with the
  return code \<open>rc\<close>, other than zero.
\<close>

definition failed_at :: "environ \<Rightarrow> event list \<Rightarrow> nat \<Rightarrow> int \<Rightarrow> bool" where
  "failed_at env t i rc =
     (i < length t \<and> rc \<noteq> 0 \<and>
      (\<exists>argv. t ! i = Subprocess_run argv \<and> subprocess_run env (take i t) argv = Exited rc))"

text \<open>Every subprocess ends with the return code zero.\<close>

definition all_succeed :: "environ \<Rightarrow> bool" where
  "all_succeed env = (\<forall>h argv. subprocess_run env h argv = Exited 0)"

text \<open>The step that installs PyQt, by install mode.\<close>

definition pyqt_steps :: "environ \<Rightarrow> namespace \<Rightarrow> event list" where
  "pyqt_steps env a =
     (if pyqt_type a = ''binary'' then
        [Subprocess_run (pip_argv env (venv_dir a)
           [''-r'', pyqt_requirements_file env (pyqt_version a),
            ''--only-binary'', ''PyQt5,PyQtWebEngine''])]
      else if pyqt_type a = ''source'' then
        [Subprocess_run (pip_argv env (venv_dir a)
           [''-r'', pyqt_requirements_file env (pyqt_version a),
            ''--verbose'', ''--no-binary'', ''PyQt5,PyQtWebEngine''])]
      else
        [Get_venv_lib_path (venv_dir a),
         Link_pyqt (sys_executable env) (get_venv_lib_path env (venv_dir a))])"

text \<open>
  The install steps, in order: upgrade pip, install PyQt, install the requirements,
  install qutebrowser in editable mode.
\<close>

definition install_steps :: "environ \<Rightarrow> namespace \<Rightarrow> event list" where
  "install_steps env a =
     [Subprocess_run (pip_argv env (venv_dir a) [''-U'', ''pip''])] @
     pyqt_steps env a @
     [Subprocess_run (pip_argv env (venv_dir a)
        [''-r'', path_div env (REPO_ROOT env) ''requirements.txt'']),
      Subprocess_run (pip_argv env (venv_dir a) [''-e'', REPO_ROOT env])]"

text \<open>
  The steps of a run that does not keep the virtualenv: delete it if it exists
  (\<open>existed\<close>), create it with pip, then the install steps.
\<close>

definition fresh_steps :: "environ \<Rightarrow> namespace \<Rightarrow> bool \<Rightarrow> event list" where
  "fresh_steps env a existed =
     [Change_cwd] @ (if existed then [Rmtree (venv_dir a)] else []) @
     [Venv_create (venv_dir a) True] @ install_steps env a"

text \<open>
  From the state \<open>s\<close>, the call \<open>f\<close> adds to the trace steps that are a prefix of \<open>xs\<close>,
  and all of \<open>xs\<close> when it returns.
\<close>

definition performs :: "proc \<Rightarrow> sys_state \<Rightarrow> event list \<Rightarrow> bool" where
  "performs f s xs =
     (\<exists>new. trace (snd (f s)) = trace s @ new \<and> prefix (steps_of new) xs \<and>
            (fst (f s) = Returned \<longrightarrow> steps_of new = xs))"

text \<open>
  The call \<open>f\<close> only adds events that neither delete nor create a directory, and leaves
  the existing paths as they are.
\<close>

definition preserves :: "proc \<Rightarrow> bool" where
  "preserves f =
     (\<forall>s. existing (snd (f s)) = existing s \<and>
          (\<exists>new. trace (snd (f s)) = trace s @ new \<and> (\<forall>e \<in> set new. \<not> destroys e)))"

text \<open>
  From a trace without a failed subprocess at or after position \<open>n\<close>, the call \<open>f\<close>
  extends the trace; it leaves no failed subprocess when it returns; and a failed
  subprocess in its trace makes it exit with that return code, straight after the
  failure message.
\<close>

definition exits_on_failure :: "environ \<Rightarrow> nat \<Rightarrow> proc \<Rightarrow> bool" where
  "exits_on_failure env n f =
     (\<forall>s. (\<forall>i rc. n \<le> i \<longrightarrow> \<not> failed_at env (trace s) i rc) \<longrightarrow>
          (\<exists>new. trace (snd (f s)) = trace s @ new) \<and>
          (fst (f s) = Returned \<longrightarrow> (\<forall>i rc. n \<le> i \<longrightarrow> \<not> failed_at env (trace (snd (f s))) i rc)) \<and>
          (\<forall>i rc. n \<le> i \<longrightarrow> failed_at env (trace (snd (f s))) i rc \<longrightarrow>
             fst (f s) = Sys_exit rc \<and>
             trace (snd (f s)) = take (Suc i) (trace (snd (f s))) @ [failure_message]))"

subsection \<open>The command line\<close>

text \<open>The namespace of a command line without arguments.\<close>

definition default_namespace :: namespace where
  "default_namespace =
     \<lparr>keep = False, venv_dir = ''.venv'', pyqt_version = ''auto'', pyqt_type = ''binary'',
      tox_error = False\<rparr>"

text \<open>The version that a requirements file stands for.\<close>

definition version_of :: "string \<Rightarrow> string" where
  "version_of req = last (py_split CHR ''-'' (stem req))"

text \<open>The options that the help of a parser shows.\<close>

definition visible_options :: "argument list \<Rightarrow> string list" where
  "visible_options ps = concat (map option_strings (filter (\<lambda>a. help_msg a \<noteq> SUPPRESS) ps))"

subsection \<open>Example surroundings\<close>

text \<open>A POSIX machine on which every subprocess succeeds.\<close>

definition example_env :: environ where
  "example_env =
     \<lparr>os_name = ''posix'', REPO_ROOT = ''/repo'', sys_executable = ''/usr/bin/python3'',
      subprocess_run = (\<lambda>h argv. Exited 0), get_venv_lib_path = (\<lambda>p. p @ ''/lib'')\<rparr>"

text \<open>The same machine, where installing the requirements ends with return code 3.\<close>

definition failing_env :: environ where
  "failing_env =
     example_env\<lparr>subprocess_run :=
       (\<lambda>h argv. if argv = [''.venv/bin/python3'', ''-m'', ''pip'', ''install'', ''-r'',
                              ''/repo/requirements.txt'']
                  then Exited 3 else Exited 0)\<rparr>"

definition example_state :: sys_state where
  "example_state = \<lparr>trace = [], existing = {''.venv''}\<rparr>"

text \<open>A requirements directory with two PyQt versions.\<close>

definition example_listing :: "string list" where
  "example_listing =
     [''requirements-pyqt-5.14.txt'', ''requirements-pyqt.txt'', ''requirements-pyqt-5.7.txt'',
      ''requirements-tests.txt'']"

section \<open>Properties of the completion builders\<close>

subsection \<open>Loops as appended item lists\<close>

lemma extend_category_Nil: "extend_category m cat [] = m"
  by (simp add: extend_category_def)

lemma extend_category_new_item:
  "cat < length (categories m) \<Longrightarrow>
   extend_category (new_item m cat n d mi) cat its =
   extend_category m cat (\<lparr>item_name = n, item_desc = d, item_misc = mi\<rparr> # its)"
  by (simp add: extend_category_def new_item_def)

lemma length_categories_new_item:
  "length (categories (new_item m cat n d mi)) = length (categories m)"
  by (simp add: new_item_def)

lemma length_categories_extend:
  "length (categories (extend_category m cat its)) = length (categories m)"
  by (simp add: extend_category_def)

lemma extend_extend:
  "cat < length (categories m) \<Longrightarrow>
   extend_category (extend_category m cat xs) cat ys = extend_category m cat (xs @ ys)"
  by (simp add: extend_category_def)



lemma session_loop_extend:
  "cat < length (categories m) \<Longrightarrow>
   session_loop m cat names =
   extend_category m cat
     (map (\<lambda>n. \<lparr>item_name = n, item_desc = None, item_misc = None\<rparr>)
        (filter (\<lambda>n. \<not> startswith n ''_'') names))"
proof (induction names arbitrary: m)
  case Nil
  then show ?case by (simp add: extend_category_Nil)
next
  case (Cons n names)
  then show ?case
    by (simp add: extend_category_new_item length_categories_new_item)
qed


lemma startswith_underscore: "startswith n ''_'' = (\<exists>r. n = CHR ''_'' # r)"
  by (cases n) (auto simp: startswith_def)

lemma session_model:
  "list_sessions w = Inr names \<Longrightarrow>
   session w =
     (Inr ((CompletionModel None)\<lparr>categories :=
        [\<lparr>cat_name = ''Sessions'',
          cat_items = map (\<lambda>n. \<lparr>item_name = n, item_desc = None, item_misc = None\<rparr>)
                        (filter (\<lambda>n. \<not> startswith n ''_'') names)\<rparr>]\<rparr>), w)"
  by (simp add: session_def new_category_def session_loop_extend extend_category_def
      CompletionModel_def)

subsection \<open>One item per entry, and the builders that leave entries out\<close>













subsection \<open>Sessions\<close>

text \<open>
  Claim C8. When \<^verbatim>\<open>list_sessions()\<close> returns a list of names, \<^verbatim>\<open>session()\<close> returns a
  model that has an item for a listed name exactly when the name does not begin with an
  underscore; every item of the model is a listed name, and none begins with an
  underscore.
\<close>

theorem session_items:
  "list_sessions w = Inr names \<Longrightarrow>
   \<exists>m. fst (session w) = Inr m \<and>
       (\<forall>n \<in> set names. (n \<in> item_name ` set (all_items m)) = (\<not> (\<exists>r. n = CHR ''_'' # r))) \<and>
       (\<forall>it \<in> set (all_items m).
          item_name it \<in> set names \<and> \<not> (\<exists>r. item_name it = CHR ''_'' # r))"
  by (auto simp add: session_model all_items_def CompletionModel_def startswith_underscore
      image_iff)

theorem session_items_witness:
  "list_sessions example_world = Inr [''default'', ''_autosave'', ''work''] \<and>
   (\<exists>m. fst (session example_world) = Inr m \<and>
       (\<forall>n \<in> set [''default'', ''_autosave'', ''work''].
          (n \<in> item_name ` set (all_items m)) = (\<not> (\<exists>r. n = CHR ''_'' # r))) \<and>
       (\<forall>it \<in> set (all_items m).
          item_name it \<in> set [''default'', ''_autosave'', ''work''] \<and>
          \<not> (\<exists>r. item_name it = CHR ''_'' # r)))"
proof -
  have h: "list_sessions example_world = Inr [''default'', ''_autosave'', ''work'']"
    by (simp add: example_world_def)
  from session_items [OF h] h show ?thesis by blast
qed

text \<open>
  Claim C2. When \<^verbatim>\<open>list_sessions()\<close> raises \<^verbatim>\<open>OSError\<close> (or one of its subclasses),
  \<^verbatim>\<open>session()\<close> logs "Failed to list sessions!" and returns a model with the category
  "Sessions" and no item; no exception leaves the builder.
\<close>

theorem session_oserror:
  "list_sessions w = Inl e \<Longrightarrow> isinstance_OSError e \<Longrightarrow>
   session w =
     (Inr ((CompletionModel None)\<lparr>categories := [\<lparr>cat_name = ''Sessions'', cat_items = []\<rparr>]\<rparr>),
      w\<lparr>log := log w @ [''Failed to list sessions!'']\<rparr>)"
  by (simp add: session_def new_category_def CompletionModel_def)

theorem session_oserror_witness:
  "list_sessions (example_world\<lparr>list_sessions := Inl OSError\<rparr>) = Inl OSError \<and>
   isinstance_OSError OSError \<and>
   session (example_world\<lparr>list_sessions := Inl OSError\<rparr>) =
     (Inr ((CompletionModel None)\<lparr>categories := [\<lparr>cat_name = ''Sessions'', cat_items = []\<rparr>]\<rparr>),
      example_world\<lparr>list_sessions := Inl OSError, log := [''Failed to list sessions!'']\<rparr>)"
proof -
  have h: "list_sessions (example_world\<lparr>list_sessions := Inl OSError\<rparr>) = Inl OSError"
    by simp
  have i: "isinstance_OSError OSError"
    by simp
  from session_oserror [OF h i] h i show ?thesis
    by (simp add: example_world_def)
qed

subsection \<open>The registries are only read\<close>

text \<open>
  Claim C7. Each of the builders \<^verbatim>\<open>command\<close>, \<^verbatim>\<open>helptopic\<close>, \<^verbatim>\<open>quickmark\<close>,
  \<^verbatim>\<open>bookmark\<close>, \<^verbatim>\<open>session\<close>, \<^verbatim>\<open>buffer\<close> and \<^verbatim>\<open>bind\<close> leaves every registry as it found
  it, whether it returns a model or raises: the command dict, the key bindings, the debug
  flag, the aliases, the configuration data, the quickmarks, the bookmarks, the sessions
  and the window registry are the same after the call as before.
\<close>

theorem builders_read_only:
  "registries (snd (command w)) = registries w \<and>
   registries (snd (helptopic w)) = registries w \<and>
   registries (snd (quickmark w)) = registries w \<and>
   registries (snd (bookmark w)) = registries w \<and>
   registries (snd (session w)) = registries w \<and>
   registries (snd (buffer w)) = registries w \<and>
   registries (snd (bind k w)) = registries w"
  by (simp add: command_def helptopic_def quickmark_def bookmark_def session_def buffer_def
      bind_def registries_def Let_def split: sum.splits prod.splits)

subsection \<open>Command completions\<close>

lemma cmd_loop_filter:
  "cmd_loop w ih pfx (reverse_bindings w) objs acc =
   acc @ map (cmd_entry w pfx)
           (filter (\<lambda>obj. \<not> cmd_deprecated obj \<and> (cmd_debug obj \<longrightarrow> args_debug w) \<and>
                          (cmd_hide obj \<longrightarrow> ih)) objs)"
  by (induction objs arbitrary: acc) (auto simp: cmd_entry_def Let_def)

lemma alias_loop_map:
  "alias_loop (reverse_bindings w) als acc = acc @ map (alias_entry w) als"
  by (induction als arbitrary: acc) (auto simp: alias_entry_def Let_def)

text \<open>
  Claim C9. Whatever \<^verbatim>\<open>include_hidden\<close>, \<^verbatim>\<open>include_aliases\<close> and the prefix are,
  \<^verbatim>\<open>_get_cmd_completions\<close> fails its assertion on an empty command dict, and otherwise
  returns the tuples of some distinct command objects followed by the tuples of the
  aliases (when asked for), where the command objects are exactly those of the command
  dict that are not deprecated, are marked debug only if the application runs with the
  debug flag, and are marked hide only if \<^verbatim>\<open>include_hidden\<close> is true.
\<close>

theorem cmd_completions_hidden:
  "(cmd_dict w = [] \<longrightarrow> get_cmd_completions w ih ia pfx = Inl AssertionError) \<and>
   (cmd_dict w \<noteq> [] \<longrightarrow>
     (\<exists>objs. get_cmd_completions w ih ia pfx =
               Inr (map (cmd_entry w pfx) objs @ (if ia then map (alias_entry w) (aliases w) else [])) \<and>
             distinct objs \<and>
             set objs = {obj \<in> snd ` set (cmd_dict w).
                           \<not> cmd_deprecated obj \<and> (cmd_debug obj \<longrightarrow> args_debug w) \<and>
                           (cmd_hide obj \<longrightarrow> ih)}))"
proof (intro conjI impI)
  assume "cmd_dict w = []"
  then show "get_cmd_completions w ih ia pfx = Inl AssertionError"
    by (simp add: get_cmd_completions_def)
next
  assume ne: "cmd_dict w \<noteq> []"
  let ?objs = "filter (\<lambda>obj. \<not> cmd_deprecated obj \<and> (cmd_debug obj \<longrightarrow> args_debug w) \<and>
                             (cmd_hide obj \<longrightarrow> ih)) (py_set (map snd (cmd_dict w)))"
  have "get_cmd_completions w ih ia pfx =
          Inr (map (cmd_entry w pfx) ?objs @ (if ia then map (alias_entry w) (aliases w) else []))"
    using ne by (simp add: get_cmd_completions_def cmd_loop_filter alias_loop_map)
  moreover have "distinct ?objs"
    by (simp add: py_set_def)
  moreover have "set ?objs = {obj \<in> snd ` set (cmd_dict w).
                           \<not> cmd_deprecated obj \<and> (cmd_debug obj \<longrightarrow> args_debug w) \<and>
                           (cmd_hide obj \<longrightarrow> ih)}"
    by (auto simp: py_set_def)
  ultimately show "\<exists>objs. get_cmd_completions w ih ia pfx =
               Inr (map (cmd_entry w pfx) objs @ (if ia then map (alias_entry w) (aliases w) else [])) \<and>
             distinct objs \<and>
             set objs = {obj \<in> snd ` set (cmd_dict w).
                           \<not> cmd_deprecated obj \<and> (cmd_debug obj \<longrightarrow> args_debug w) \<and>
                           (cmd_hide obj \<longrightarrow> ih)}"
    by blast
qed

theorem cmd_completions_hidden_witness:
  "cmd_dict example_world \<noteq> [] \<and>
   (\<exists>objs. get_cmd_completions example_world False True [] =
             Inr (map (cmd_entry example_world []) objs @ map (alias_entry example_world) (aliases example_world)) \<and>
           distinct objs \<and>
           set objs = {obj \<in> snd ` set (cmd_dict example_world).
                         \<not> cmd_deprecated obj \<and> (cmd_debug obj \<longrightarrow> args_debug example_world) \<and>
                         (cmd_hide obj \<longrightarrow> False)})"
proof -
  have ne: "cmd_dict example_world \<noteq> []"
    by (simp add: example_world_def)
  from cmd_completions_hidden [of example_world False True "[]"] ne show ?thesis
    by simp
qed

subsection \<open>Help topics\<close>

lemma splitlines_empty_iff: "(splitlines d = []) = (d = [])"
  by (induction d rule: splitlines.induct) (auto split: list.splits)

lemma hd_splitlines: "d \<noteq> [] \<Longrightarrow> hd (splitlines d) = first_line d"
proof (induction d rule: splitlines.induct)
  case 1
  then show ?case by simp
next
  case (2 c)
  then show ?case by (simp add: first_line_def)
next
  case (3 c d ds)
  then show ?case
    by (auto simp: first_line_def splitlines_empty_iff split: list.splits)
qed

lemma index0_splitlines: "d \<noteq> [] \<Longrightarrow> index0 (splitlines d) = Inr (first_line d)"
  using hd_splitlines [of d] splitlines_empty_iff [of d]
  by (cases "splitlines d") (auto simp: index0_def)

lemma lookup_description_error:
  "lookup_description sd optname = Inl e \<Longrightarrow> e = KeyError \<or> e = AttributeError"
  by (auto simp: lookup_description_def split: option.splits)

lemma opt_loop_extend:
  "cat < length (categories m) \<Longrightarrow>
   list_all (\<lambda>optname. lookup_description sd optname \<noteq> Inr []) opts \<Longrightarrow>
   opt_loop m cat sectname sd opts =
   Inr (extend_category m cat (map (setting_item sectname sd) opts))"
proof (induction opts arbitrary: m)
  case Nil
  then show ?case by (simp add: extend_category_Nil)
next
  case (Cons optname opts)
  show ?case
  proof (cases "lookup_description sd optname")
    case (Inl e)
    with Cons lookup_description_error [OF Inl] show ?thesis
      by (auto simp: extend_category_new_item length_categories_new_item setting_item_def)
  next
    case (Inr d)
    with Cons have "d \<noteq> []" by simp
    with Cons Inr show ?thesis
      by (simp add: index0_splitlines extend_category_new_item length_categories_new_item
          setting_item_def)
  qed
qed

lemma sect_loop_extend:
  "cat < length (categories m) \<Longrightarrow>
   list_all (\<lambda>(sectname, sd). list_all (\<lambda>optname. lookup_description sd optname \<noteq> Inr []) (optnames sd)) cd \<Longrightarrow>
   sect_loop m cat cd =
   Inr (extend_category m cat
          (concat (map (\<lambda>(sectname, sd). map (setting_item sectname sd) (optnames sd)) cd)))"
proof (induction cd arbitrary: m)
  case Nil
  then show ?case by (simp add: extend_category_Nil)
next
  case (Cons p cd)
  obtain sectname sd where p: "p = (sectname, sd)" by (cases p)
  from Cons show ?case
    by (simp add: p opt_loop_extend length_categories_extend extend_extend)
qed


section \<open>Properties of the setup script\<close>

subsection \<open>A failed subprocess ends the script\<close>

lemma run_venv_failure:
  "subprocess_run env (trace s) (venv_argv env vd exe args) = Exited rc \<Longrightarrow> rc \<noteq> 0 \<Longrightarrow>
   run_venv env vd exe args s =
     (Sys_exit rc,
      s\<lparr>trace := trace s @ [Subprocess_run (venv_argv env vd exe args), failure_message]\<rparr>)"
  by (simp add: run_venv_def venv_argv_def failure_message_def emit_def sys_exit_def Let_def)

lemma pip_install_run_venv:
  "pip_install env vd args s =
   run_venv env vd ''python3'' ([''-m'', ''pip'', ''install''] @ args)
     (s\<lparr>trace := trace s @ [Print_col (''venv$ pip install '' @ join '' '' args) ''blue'']\<rparr>)"
  by (simp add: pip_install_def emit_def Let_def split: prod.splits outcome.splits)

lemma pip_install_failure:
  "subprocess_run env (trace s @ [Print_col (''venv$ pip install '' @ join '' '' args) ''blue''])
     (pip_argv env vd args) = Exited rc \<Longrightarrow> rc \<noteq> 0 \<Longrightarrow>
   pip_install env vd args s =
     (Sys_exit rc,
      s\<lparr>trace := trace s @ [Print_col (''venv$ pip install '' @ join '' '' args) ''blue'',
                              Subprocess_run (pip_argv env vd args), failure_message]\<rparr>)"
  unfolding pip_install_run_venv pip_argv_def
  by (subst run_venv_failure [where rc = rc]) simp_all


lemma failed_at_append_old:
  "i < length t \<Longrightarrow> failed_at env (t @ new) i rc = failed_at env t i rc"
  by (simp add: failed_at_def nth_append)

lemma eof_skip: "exits_on_failure env n skip"
  by (simp add: exits_on_failure_def skip_def)

lemma eof_sys_exit: "exits_on_failure env n (sys_exit c)"
  by (simp add: exits_on_failure_def sys_exit_def)

lemma eof_raise: "exits_on_failure env n (raise e)"
  by (simp add: exits_on_failure_def raise_def)

lemma failed_at_snoc_other:
  "\<forall>argv. e \<noteq> Subprocess_run argv \<Longrightarrow>
   failed_at env (t @ [e]) i rc = failed_at env t i rc"
  by (cases "i < length t") (auto simp: failed_at_def nth_append less_Suc_eq)

lemma eof_emit:
  "\<forall>argv. e \<noteq> Subprocess_run argv \<Longrightarrow> exits_on_failure env n (emit e)"
  by (simp add: exits_on_failure_def emit_def failed_at_snoc_other)

lemma eof_rmtree: "exits_on_failure env n (rmtree p)"
  by (simp add: exits_on_failure_def rmtree_def failed_at_snoc_other)

lemma eof_venv_create: "exits_on_failure env n (venv_create p b)"
  by (simp add: exits_on_failure_def venv_create_def failed_at_snoc_other)

lemma eof_do_all:
  "list_all (exits_on_failure env n) fs \<Longrightarrow> exits_on_failure env n (do_all fs)"
proof (induction fs)
  case Nil
  then show ?case by (simp add: exits_on_failure_def)
next
  case (Cons f fs)
  then have f: "exits_on_failure env n f" and fs: "exits_on_failure env n (do_all fs)"
    by simp_all
  show ?case
    unfolding exits_on_failure_def
  proof (intro allI impI)
    fix s :: sys_state
    assume clean: "\<forall>i rc. n \<le> i \<longrightarrow> \<not> failed_at env (trace s) i rc"
    obtain r s' where fs': "f s = (r, s')" by (cases "f s")
    from f clean fs' obtain new where
      ext: "trace s' = trace s @ new" and
      ret: "r = Returned \<longrightarrow> (\<forall>i rc. n \<le> i \<longrightarrow> \<not> failed_at env (trace s') i rc)" and
      fail: "\<forall>i rc. n \<le> i \<longrightarrow> failed_at env (trace s') i rc \<longrightarrow>
               r = Sys_exit rc \<and> trace s' = take (Suc i) (trace s') @ [failure_message]"
      unfolding exits_on_failure_def by fastforce
    show "(\<exists>new. trace (snd (do_all (f # fs) s)) = trace s @ new) \<and>
          (fst (do_all (f # fs) s) = Returned \<longrightarrow>
             (\<forall>i rc. n \<le> i \<longrightarrow> \<not> failed_at env (trace (snd (do_all (f # fs) s))) i rc)) \<and>
          (\<forall>i rc. n \<le> i \<longrightarrow> failed_at env (trace (snd (do_all (f # fs) s))) i rc \<longrightarrow>
             fst (do_all (f # fs) s) = Sys_exit rc \<and>
             trace (snd (do_all (f # fs) s)) =
               take (Suc i) (trace (snd (do_all (f # fs) s))) @ [failure_message])"
    proof (cases "r = Returned")
      case True
      then have eq: "do_all (f # fs) s = do_all fs s'"
        using fs' by simp
      from ret True have clean': "\<forall>i rc. n \<le> i \<longrightarrow> \<not> failed_at env (trace s') i rc"
        by simp
      from fs clean' obtain new' where
        ext': "trace (snd (do_all fs s')) = trace s' @ new'" and
        rest: "(fst (do_all fs s') = Returned \<longrightarrow>
                 (\<forall>i rc. n \<le> i \<longrightarrow> \<not> failed_at env (trace (snd (do_all fs s'))) i rc)) \<and>
               (\<forall>i rc. n \<le> i \<longrightarrow> failed_at env (trace (snd (do_all fs s'))) i rc \<longrightarrow>
                 fst (do_all fs s') = Sys_exit rc \<and>
                 trace (snd (do_all fs s')) =
                   take (Suc i) (trace (snd (do_all fs s'))) @ [failure_message])"
        unfolding exits_on_failure_def by blast
      from ext ext' have "trace (snd (do_all fs s')) = trace s @ (new @ new')"
        by simp
      with rest show ?thesis
        unfolding eq by blast
    next
      case False
      then have eq: "do_all (f # fs) s = (r, s')"
        using fs' by (cases r) simp_all
      from ext fail False show ?thesis
        unfolding eq by auto
    qed
  qed
qed

lemma eof_run_venv: "exits_on_failure env n (run_venv env vd exe args)"
  unfolding exits_on_failure_def
proof (intro allI impI)
  fix s :: sys_state
  assume clean: "\<forall>i rc. n \<le> i \<longrightarrow> \<not> failed_at env (trace s) i rc"
  let ?argv = "venv_argv env vd exe args"
  let ?f = "run_venv env vd exe args"
  show "(\<exists>new. trace (snd (?f s)) = trace s @ new) \<and>
        (fst (?f s) = Returned \<longrightarrow> (\<forall>i rc. n \<le> i \<longrightarrow> \<not> failed_at env (trace (snd (?f s))) i rc)) \<and>
        (\<forall>i rc. n \<le> i \<longrightarrow> failed_at env (trace (snd (?f s))) i rc \<longrightarrow>
           fst (?f s) = Sys_exit rc \<and>
           trace (snd (?f s)) = take (Suc i) (trace (snd (?f s))) @ [failure_message])"
  proof (cases "subprocess_run env (trace s) ?argv")
    case (Spawn_error e)
    then have eq: "?f s = (Raised e, s\<lparr>trace := trace s @ [Subprocess_run ?argv]\<rparr>)"
      by (simp add: run_venv_def venv_argv_def Let_def)
    have "\<not> failed_at env (trace s @ [Subprocess_run ?argv]) i rc" if "n \<le> i" for i rc
    proof (cases "i < length (trace s)")
      case True
      with clean that show ?thesis by (simp add: failed_at_append_old)
    next
      case False
      with Spawn_error show ?thesis
        by (auto simp: failed_at_def nth_append less_Suc_eq)
    qed
    then show ?thesis
      unfolding eq by simp
  next
    case (Exited rc0)
    show ?thesis
    proof (cases "rc0 = 0")
      case True
      with Exited have eq: "?f s = (Returned, s\<lparr>trace := trace s @ [Subprocess_run ?argv]\<rparr>)"
        by (simp add: run_venv_def venv_argv_def Let_def)
      have "\<not> failed_at env (trace s @ [Subprocess_run ?argv]) i rc" if "n \<le> i" for i rc
      proof (cases "i < length (trace s)")
        case True
        with clean that show ?thesis by (simp add: failed_at_append_old)
      next
        case False
        with Exited \<open>rc0 = 0\<close> show ?thesis
          by (auto simp: failed_at_def nth_append less_Suc_eq)
      qed
      then show ?thesis
        unfolding eq by simp
    next
      case False
      with Exited have eq:
        "?f s = (Sys_exit rc0, s\<lparr>trace := trace s @ [Subprocess_run ?argv, failure_message]\<rparr>)"
        by (simp add: run_venv_failure)
      have "rc = rc0 \<and> i = length (trace s)"
        if "n \<le> i" and "failed_at env (trace s @ [Subprocess_run ?argv, failure_message]) i rc"
        for i rc
      proof (cases "i < length (trace s)")
        case True
        with clean that show ?thesis by (simp add: failed_at_append_old)
      next
        case False
        with that(2) Exited show ?thesis
          by (auto simp: failed_at_def nth_append less_Suc_eq failure_message_def
              split: if_splits)
      qed
      then show ?thesis
        unfolding eq by auto
    qed
  qed
qed

lemma eof_pip_install: "exits_on_failure env n (pip_install env vd args)"
  unfolding pip_install_def Let_def
  by (rule eof_do_all) (simp add: eof_emit eof_run_venv)

lemma eof_cond:
  "exits_on_failure env n f \<Longrightarrow> exits_on_failure env n g \<Longrightarrow>
   exits_on_failure env n (\<lambda>s. if P s then f s else g s)"
  by (simp add: exits_on_failure_def)

lemma delete_old_venv_cond:
  "delete_old_venv vd =
   (\<lambda>s. if vd \<in> existing s
        then do_all [emit (Print_col (''$ rm -r '' @ vd) ''blue''), rmtree vd] s
        else skip s)"
  by (rule ext) (simp add: delete_old_venv_def skip_def)

lemma eof_delete_old_venv: "exits_on_failure env n (delete_old_venv vd)"
  unfolding delete_old_venv_cond
  by (intro eof_cond eof_do_all) (simp_all add: eof_emit eof_rmtree eof_skip)

lemma eof_main: "exits_on_failure env n (main env a)"
  unfolding main_def Let_def
  by (rule eof_do_all)
    (simp add: eof_emit eof_skip eof_sys_exit eof_raise eof_do_all eof_pip_install
      show_tox_error_def eof_delete_old_venv create_venv_def upgrade_pip_def
      install_pyqt_binary_def install_pyqt_source_def install_pyqt_link_def
      install_requirements_def install_qutebrowser_def eof_rmtree eof_venv_create)



subsection \<open>The steps of a call\<close>

lemma steps_of_append: "steps_of (xs @ ys) = steps_of xs @ steps_of ys"
  by (simp add: steps_of_def)

lemma performs_emit_step: "is_step e \<Longrightarrow> performs (emit e) s [e]"
  by (simp add: performs_def emit_def steps_of_def)

lemma performs_emit_print: "\<not> is_step e \<Longrightarrow> performs (emit e) s []"
  by (simp add: performs_def emit_def steps_of_def)

lemma performs_skip: "performs skip s []"
  unfolding performs_def by (simp add: skip_def steps_of_def)

lemma performs_Cons:
  assumes f: "performs f s xs"
    and fs: "fst (f s) = Returned \<Longrightarrow> performs (do_all fs) (snd (f s)) ys"
  shows "performs (do_all (f # fs)) s (xs @ ys)"
proof -
  obtain r s' where fs': "f s = (r, s')" by (cases "f s")
  from f fs' obtain new where
    ext: "trace s' = trace s @ new" and pre: "prefix (steps_of new) xs" and
    ret: "r = Returned \<longrightarrow> steps_of new = xs"
    by (auto simp: performs_def)
  show ?thesis
  proof (cases "r = Returned")
    case True
    then have eq: "do_all (f # fs) s = do_all fs s'"
      using fs' by simp
    from fs True fs' obtain new' where
      ext': "trace (snd (do_all fs s')) = trace s' @ new'" and
      pre': "prefix (steps_of new') ys" and
      ret': "fst (do_all fs s') = Returned \<longrightarrow> steps_of new' = ys"
      by (auto simp: performs_def)
    from ext ext' have "trace (snd (do_all fs s')) = trace s @ (new @ new')"
      by simp
    moreover from ret True pre' have "prefix (steps_of (new @ new')) (xs @ ys)"
      by (simp add: steps_of_append)
    moreover from ret True ret' have
      "fst (do_all fs s') = Returned \<longrightarrow> steps_of (new @ new') = xs @ ys"
      by (simp add: steps_of_append)
    ultimately show ?thesis
      unfolding performs_def eq by blast
  next
    case False
    then have eq: "do_all (f # fs) s = (r, s')"
      using fs' by (cases r) simp_all
    from pre have "prefix (steps_of new) (xs @ ys)"
      by (rule prefix_prefix)
    with ext False show ?thesis
      unfolding performs_def eq by auto
  qed
qed

lemma performs_all:
  "list_all2 (\<lambda>f xs. \<forall>s. performs f s xs) fs xss \<Longrightarrow> performs (do_all fs) s (concat xss)"
proof (induction fs xss arbitrary: s rule: list_all2_induct)
  case Nil
  then show ?case by (simp add: performs_def steps_of_def)
next
  case (Cons f fs xs xss)
  have "performs (do_all (f # fs)) s (xs @ concat xss)"
  proof (rule performs_Cons)
    from Cons show "performs f s xs" by blast
    from Cons show "performs (do_all fs) (snd (f s)) (concat xss)" by blast
  qed
  then show ?case
    by (simp del: do_all.simps)
qed

lemma performs_run_venv:
  "performs (run_venv env vd exe args) s [Subprocess_run (venv_argv env vd exe args)]"
  by (cases "subprocess_run env (trace s) (venv_argv env vd exe args)")
    (simp_all add: performs_def run_venv_def venv_argv_def Let_def steps_of_def emit_def
      sys_exit_def)

lemma performs_pip_install:
  "performs (pip_install env vd args) s [Subprocess_run (pip_argv env vd args)]"
proof -
  have "performs (pip_install env vd args) s
          (concat [[], [Subprocess_run (pip_argv env vd args)]])"
    unfolding pip_install_def Let_def pip_argv_def
    by (rule performs_all) (simp add: performs_emit_print performs_run_venv)
  then show ?thesis by simp
qed

lemma performs_creation:
  "performs (do_all [emit (Print_title ''Creating virtual environment''),
                     delete_old_venv vd, create_venv vd]) s
     ((if vd \<in> existing s then [Rmtree vd] else []) @ [Venv_create vd True])"
  by (simp add: performs_def emit_def delete_old_venv_def create_venv_def rmtree_def
      venv_create_def steps_of_def)

lemma performs_install_pyqt:
  "pyqt_type a \<in> {''binary'', ''source'', ''link''} \<Longrightarrow>
   performs (if pyqt_type a = ''binary'' then
               install_pyqt_binary env (venv_dir a) (pyqt_version a)
             else if pyqt_type a = ''source'' then
               install_pyqt_source env (venv_dir a) (pyqt_version a)
             else if pyqt_type a = ''link'' then
               install_pyqt_link env (venv_dir a)
             else raise AssertionError) s (pyqt_steps env a)"
proof -
  have b: "performs (install_pyqt_binary env vd v) s
             (concat [[], [], [Subprocess_run (pip_argv env vd
                [''-r'', pyqt_requirements_file env v, ''--only-binary'', ''PyQt5,PyQtWebEngine''])]])"
    for vd v
    unfolding install_pyqt_binary_def
    by (rule performs_all) (simp add: performs_emit_print performs_pip_install)
  have c: "performs (install_pyqt_source env vd v) s
             (concat [[], [Subprocess_run (pip_argv env vd
                [''-r'', pyqt_requirements_file env v, ''--verbose'', ''--no-binary'',
                 ''PyQt5,PyQtWebEngine''])]])"
    for vd v
    unfolding install_pyqt_source_def
    by (rule performs_all) (simp add: performs_emit_print performs_pip_install)
  have l: "performs (install_pyqt_link env vd) s
             (concat [[], [Get_venv_lib_path vd],
                      [Link_pyqt (sys_executable env) (get_venv_lib_path env vd)]])"
    for vd
    unfolding install_pyqt_link_def Let_def
    by (rule performs_all) (simp add: performs_emit_print performs_emit_step)
  assume "pyqt_type a \<in> {''binary'', ''source'', ''link''}"
  then show ?thesis
    using b [of "venv_dir a" "pyqt_version a"] c [of "venv_dir a" "pyqt_version a"]
      l [of "venv_dir a"]
    by (auto simp: pyqt_steps_def)
qed

lemma performs_install_rest:
  "pyqt_type a \<in> {''binary'', ''source'', ''link''} \<Longrightarrow>
   performs (do_all
     [upgrade_pip env (venv_dir a),
      (if pyqt_type a = ''binary'' then
         install_pyqt_binary env (venv_dir a) (pyqt_version a)
       else if pyqt_type a = ''source'' then
         install_pyqt_source env (venv_dir a) (pyqt_version a)
       else if pyqt_type a = ''link'' then
         install_pyqt_link env (venv_dir a)
       else raise AssertionError),
      install_requirements env (venv_dir a),
      install_qutebrowser env (venv_dir a)]) s (install_steps env a)"
proof -
  assume t: "pyqt_type a \<in> {''binary'', ''source'', ''link''}"
  have u: "performs (upgrade_pip env vd) s'
             (concat [[], [Subprocess_run (pip_argv env vd [''-U'', ''pip''])]])" for vd s'
    unfolding upgrade_pip_def
    by (rule performs_all) (simp add: performs_emit_print performs_pip_install)
  have r: "performs (install_requirements env vd) s'
             (concat [[], [Subprocess_run (pip_argv env vd
                [''-r'', path_div env (REPO_ROOT env) ''requirements.txt''])]])" for vd s'
    unfolding install_requirements_def Let_def
    by (rule performs_all) (simp add: performs_emit_print performs_pip_install)
  have q: "performs (install_qutebrowser env vd) s'
             (concat [[], [Subprocess_run (pip_argv env vd [''-e'', REPO_ROOT env])]])" for vd s'
    unfolding install_qutebrowser_def
    by (rule performs_all) (simp add: performs_emit_print performs_pip_install)
  have "performs (do_all
     [upgrade_pip env (venv_dir a),
      (if pyqt_type a = ''binary'' then
         install_pyqt_binary env (venv_dir a) (pyqt_version a)
       else if pyqt_type a = ''source'' then
         install_pyqt_source env (venv_dir a) (pyqt_version a)
       else if pyqt_type a = ''link'' then
         install_pyqt_link env (venv_dir a)
       else raise AssertionError),
      install_requirements env (venv_dir a),
      install_qutebrowser env (venv_dir a)]) s
     (concat [[Subprocess_run (pip_argv env (venv_dir a) [''-U'', ''pip''])],
              pyqt_steps env a,
              [Subprocess_run (pip_argv env (venv_dir a)
                 [''-r'', path_div env (REPO_ROOT env) ''requirements.txt''])],
              [Subprocess_run (pip_argv env (venv_dir a) [''-e'', REPO_ROOT env])]])"
    apply (rule performs_all)
    using u r q performs_install_pyqt [OF t]
    apply simp
    done
  then show ?thesis
    by (simp add: install_steps_def)
qed

lemma main_performs:
  assumes tox: "\<not> tox_error a" and t: "pyqt_type a \<in> {''binary'', ''source'', ''link''}"
  shows "performs (main env a) s
           (Change_cwd #
            (if keep a then []
             else (if venv_dir a \<in> existing s then [Rmtree (venv_dir a)] else []) @
                  [Venv_create (venv_dir a) True]) @
            install_steps env a)"
proof -
  let ?s1 = "snd (emit Change_cwd s)"
  let ?s2 = "snd (skip ?s1)"
  let ?block = "if \<not> keep a then
               do_all [emit (Print_title ''Creating virtual environment''),
                       delete_old_venv (venv_dir a),
                       create_venv (venv_dir a)]
             else skip"
  let ?cs = "if keep a then []
             else (if venv_dir a \<in> existing s then [Rmtree (venv_dir a)] else []) @
                  [Venv_create (venv_dir a) True]"
  have ex: "existing ?s2 = existing s"
    by (simp add: skip_def emit_def)
  have blk: "performs ?block ?s2 ?cs"
    using performs_creation [of "venv_dir a" ?s2] performs_skip [of ?s2]
    by (simp add: ex)
  have "performs (main env a) s ([Change_cwd] @ [] @ ?cs @ install_steps env a)"
    unfolding main_def Let_def if_not_P [OF tox]
    apply (rule performs_Cons)
     apply (simp add: performs_emit_step)
    apply (rule performs_Cons)
     apply (rule performs_skip)
    apply (rule performs_Cons)
     apply (rule blk)
    apply (rule performs_install_rest [OF t])
    done
  then show ?thesis by simp
qed



subsection \<open>Runs in which every subprocess succeeds\<close>

lemma do_all_returns:
  "list_all (\<lambda>f. \<forall>s. fst (f s) = Returned) fs \<Longrightarrow> fst (do_all fs s) = Returned"
proof (induction fs arbitrary: s)
  case Nil
  then show ?case by simp
next
  case (Cons f fs)
  obtain r s' where fs': "f s = (r, s')" by (cases "f s")
  from Cons.prems have "fst (f s) = Returned" by simp
  with fs' have "r = Returned" by simp
  with Cons fs' show ?case by simp
qed

lemma emit_returns: "fst (emit e s) = Returned"
  by (simp add: emit_def)

lemma pip_install_returns:
  "all_succeed env \<Longrightarrow> fst (pip_install env vd args s) = Returned"
  by (simp add: all_succeed_def pip_install_run_venv run_venv_def Let_def)

lemma delete_old_venv_returns: "fst (delete_old_venv vd s) = Returned"
  by (simp add: delete_old_venv_def emit_def rmtree_def)

lemma main_returns:
  assumes ok: "all_succeed env" and tox: "\<not> tox_error a"
    and t: "pyqt_type a \<in> {''binary'', ''source'', ''link''}"
  shows "fst (main env a s) = Returned"
  unfolding main_def Let_def if_not_P [OF tox]
  apply (rule do_all_returns)
  using t
  apply (auto simp: emit_returns skip_def pip_install_returns [OF ok] delete_old_venv_returns
      do_all_returns create_venv_def venv_create_def upgrade_pip_def install_pyqt_binary_def
      install_pyqt_source_def install_pyqt_link_def install_requirements_def
      install_qutebrowser_def Let_def simp del: do_all.simps)
  done


subsection \<open>Calls that neither delete nor create a directory\<close>

lemma preserves_emit: "\<not> destroys e \<Longrightarrow> preserves (emit e)"
  by (simp add: preserves_def emit_def)

lemma preserves_skip: "preserves skip"
  unfolding preserves_def by (simp add: skip_def)

lemma preserves_sys_exit: "preserves (sys_exit c)"
  unfolding preserves_def by (simp add: sys_exit_def)

lemma preserves_raise: "preserves (raise e)"
  unfolding preserves_def by (simp add: raise_def)

lemma preserves_do_all: "list_all preserves fs \<Longrightarrow> preserves (do_all fs)"
proof (induction fs)
  case Nil
  show ?case unfolding preserves_def by simp
next
  case (Cons f fs)
  then have f: "preserves f" and fs: "preserves (do_all fs)" by simp_all
  show ?case
    unfolding preserves_def
  proof
    fix s :: sys_state
    obtain r s' where fs': "f s = (r, s')" by (cases "f s")
    from f fs' obtain new where
      e1: "existing s' = existing s" and t1: "trace s' = trace s @ new" and
      d1: "\<forall>e \<in> set new. \<not> destroys e"
      unfolding preserves_def by (metis snd_conv)
    show "existing (snd (do_all (f # fs) s)) = existing s \<and>
          (\<exists>new. trace (snd (do_all (f # fs) s)) = trace s @ new \<and> (\<forall>e \<in> set new. \<not> destroys e))"
    proof (cases "r = Returned")
      case True
      then have eq: "do_all (f # fs) s = do_all fs s'" using fs' by simp
      from fs obtain new' where
        e2: "existing (snd (do_all fs s')) = existing s'" and
        t2: "trace (snd (do_all fs s')) = trace s' @ new'" and
        d2: "\<forall>e \<in> set new'. \<not> destroys e"
        unfolding preserves_def by blast
      from t1 t2 have "trace (snd (do_all fs s')) = trace s @ (new @ new')" by simp
      moreover from d1 d2 have "\<forall>e \<in> set (new @ new'). \<not> destroys e" by auto
      ultimately show ?thesis
        unfolding eq using e1 e2 by metis
    next
      case False
      then have eq: "do_all (f # fs) s = (r, s')" using fs' by (cases r) simp_all
      from e1 t1 d1 show ?thesis unfolding eq by auto
    qed
  qed
qed

lemma preserves_run_venv: "preserves (run_venv env vd exe args)"
  unfolding preserves_def
proof
  fix s :: sys_state
  show "existing (snd (run_venv env vd exe args s)) = existing s \<and>
        (\<exists>new. trace (snd (run_venv env vd exe args s)) = trace s @ new \<and>
               (\<forall>e \<in> set new. \<not> destroys e))"
    by (cases "subprocess_run env (trace s) (venv_argv env vd exe args)")
      (simp_all add: run_venv_def venv_argv_def Let_def emit_def sys_exit_def)
qed

lemma preserves_pip_install: "preserves (pip_install env vd args)"
  unfolding pip_install_def Let_def
  by (rule preserves_do_all) (simp add: preserves_emit preserves_run_venv)

lemma main_keep_preserves: "keep a \<Longrightarrow> preserves (main env a)"
  unfolding main_def Let_def
  by (rule preserves_do_all)
    (simp add: preserves_emit preserves_skip preserves_sys_exit preserves_raise
      preserves_do_all preserves_pip_install show_tox_error_def upgrade_pip_def
      install_pyqt_binary_def install_pyqt_source_def install_pyqt_link_def
      install_requirements_def install_qutebrowser_def)


subsection \<open>The claims about the setup script\<close>

text \<open>
  Claim C1. When the subprocess that \<^verbatim>\<open>run_venv\<close> starts ends with a return code other
  than zero, \<^verbatim>\<open>run_venv\<close> prints "Subprocess failed, exiting" and leaves through
  \<^verbatim>\<open>sys.exit\<close> with that return code; so does every \<^verbatim>\<open>pip_install\<close>; and whenever a
  subprocess started during \<^verbatim>\<open>main\<close> ends with a return code other than zero, \<^verbatim>\<open>main\<close>
  as a whole ends through \<^verbatim>\<open>sys.exit\<close> with that code, the message being the last thing
  it did.
\<close>

theorem subprocess_failure_exits:
  "(subprocess_run env (trace s) (venv_argv env vd exe args) = Exited rc \<and> rc \<noteq> 0 \<longrightarrow>
      run_venv env vd exe args s =
        (Sys_exit rc,
         s\<lparr>trace := trace s @ [Subprocess_run (venv_argv env vd exe args), failure_message]\<rparr>)) \<and>
   (subprocess_run env (trace s @ [Print_col (''venv$ pip install '' @ join '' '' pargs) ''blue''])
      (pip_argv env vd pargs) = Exited rc \<and> rc \<noteq> 0 \<longrightarrow>
      pip_install env vd pargs s =
        (Sys_exit rc,
         s\<lparr>trace := trace s @ [Print_col (''venv$ pip install '' @ join '' '' pargs) ''blue'',
                                 Subprocess_run (pip_argv env vd pargs), failure_message]\<rparr>)) \<and>
   (length (trace s) \<le> i \<and> failed_at env (trace (snd (main env a s))) i rc \<longrightarrow>
      fst (main env a s) = Sys_exit rc \<and>
      trace (snd (main env a s)) = take (Suc i) (trace (snd (main env a s))) @ [failure_message])"
proof (intro conjI impI)
  assume "subprocess_run env (trace s) (venv_argv env vd exe args) = Exited rc \<and> rc \<noteq> 0"
  then show "run_venv env vd exe args s =
        (Sys_exit rc,
         s\<lparr>trace := trace s @ [Subprocess_run (venv_argv env vd exe args), failure_message]\<rparr>)"
    by (simp add: run_venv_failure)
next
  assume "subprocess_run env (trace s @ [Print_col (''venv$ pip install '' @ join '' '' pargs) ''blue''])
      (pip_argv env vd pargs) = Exited rc \<and> rc \<noteq> 0"
  then show "pip_install env vd pargs s =
        (Sys_exit rc,
         s\<lparr>trace := trace s @ [Print_col (''venv$ pip install '' @ join '' '' pargs) ''blue'',
                                 Subprocess_run (pip_argv env vd pargs), failure_message]\<rparr>)"
    by (simp add: pip_install_failure)
next
  assume h: "length (trace s) \<le> i \<and> failed_at env (trace (snd (main env a s))) i rc"
  have clean: "\<forall>j c. length (trace s) \<le> j \<longrightarrow> \<not> failed_at env (trace s) j c"
    by (simp add: failed_at_def)
  from eof_main [of env "length (trace s)" a] clean h
  show "fst (main env a s) = Sys_exit rc"
    and "trace (snd (main env a s)) = take (Suc i) (trace (snd (main env a s))) @ [failure_message]"
    unfolding exits_on_failure_def by blast+
qed

text \<open>
  Claim C4. Without \<^verbatim>\<open>--keep\<close> and \<^verbatim>\<open>--tox-error\<close>, and with one of the three install
  modes, the steps of \<^verbatim>\<open>main\<close> are, in this order: change the working directory, delete
  the virtualenv directory if it exists, create the virtualenv with pip, upgrade pip,
  install PyQt in the chosen mode, install the requirements, install qutebrowser in
  editable mode. A run that is cut short has done a prefix of these steps; a run that
  returns has done all of them, and a run in which every subprocess succeeds returns.
\<close>

theorem main_step_order:
  "\<not> keep a \<Longrightarrow> \<not> tox_error a \<Longrightarrow> pyqt_type a \<in> {''binary'', ''source'', ''link''} \<Longrightarrow>
   \<exists>new. trace (snd (main env a s)) = trace s @ new \<and>
     prefix (steps_of new) (fresh_steps env a (venv_dir a \<in> existing s)) \<and>
     (fst (main env a s) = Returned \<longrightarrow>
        steps_of new = fresh_steps env a (venv_dir a \<in> existing s)) \<and>
     (all_succeed env \<longrightarrow>
        fst (main env a s) = Returned \<and>
        steps_of new = fresh_steps env a (venv_dir a \<in> existing s))"
proof -
  assume k: "\<not> keep a" and tox: "\<not> tox_error a"
    and t: "pyqt_type a \<in> {''binary'', ''source'', ''link''}"
  from main_performs [OF tox t, of env s] k
  have "performs (main env a) s (fresh_steps env a (venv_dir a \<in> existing s))"
    by (simp add: fresh_steps_def)
  then obtain new where
    "trace (snd (main env a s)) = trace s @ new" and
    "prefix (steps_of new) (fresh_steps env a (venv_dir a \<in> existing s))" and
    "fst (main env a s) = Returned \<longrightarrow>
       steps_of new = fresh_steps env a (venv_dir a \<in> existing s)"
    unfolding performs_def by blast
  with main_returns [OF _ tox t, of env s] show ?thesis
    by blast
qed

text \<open>
  Claim C10. With \<^verbatim>\<open>--keep\<close>, \<^verbatim>\<open>main\<close> adds no event that deletes or creates a
  directory and leaves the existing paths as they were; without \<^verbatim>\<open>--tox-error\<close> and with
  one of the three install modes its steps are a prefix of: change the working directory,
  then the install steps, and all of them when every subprocess succeeds.
\<close>

theorem keep_reuses_venv:
  "keep a \<Longrightarrow>
   existing (snd (main env a s)) = existing s \<and>
   (\<exists>new. trace (snd (main env a s)) = trace s @ new \<and>
      (\<forall>e \<in> set new. \<not> destroys e) \<and>
      (\<not> tox_error a \<and> pyqt_type a \<in> {''binary'', ''source'', ''link''} \<longrightarrow>
         prefix (steps_of new) (Change_cwd # install_steps env a) \<and>
         (all_succeed env \<longrightarrow>
            fst (main env a s) = Returned \<and> steps_of new = Change_cwd # install_steps env a)))"
proof -
  assume k: "keep a"
  from main_keep_preserves [OF k, of env] obtain new where
    e: "existing (snd (main env a s)) = existing s" and
    n: "trace (snd (main env a s)) = trace s @ new" and
    d: "\<forall>e \<in> set new. \<not> destroys e"
    unfolding preserves_def by blast
  have "prefix (steps_of new) (Change_cwd # install_steps env a) \<and>
        (all_succeed env \<longrightarrow>
           fst (main env a s) = Returned \<and> steps_of new = Change_cwd # install_steps env a)"
    if tox: "\<not> tox_error a" and t: "pyqt_type a \<in> {''binary'', ''source'', ''link''}"
  proof -
    from main_performs [OF tox t, of env s] k
    have "performs (main env a) s (Change_cwd # install_steps env a)"
      by simp
    then obtain new' where
      n': "trace (snd (main env a s)) = trace s @ new'" and
      p: "prefix (steps_of new') (Change_cwd # install_steps env a)" and
      r: "fst (main env a s) = Returned \<longrightarrow> steps_of new' = Change_cwd # install_steps env a"
      unfolding performs_def by blast
    from n n' have "new' = new" by simp
    with p r main_returns [OF _ tox t, of env s] show ?thesis
      by blast
  qed
  with e n d show ?thesis by blast
qed


text \<open>The definitions that evaluate the script on given surroundings.\<close>

lemmas script_defs =
  main_def do_all.simps emit_def skip_def sys_exit_def raise_def run_venv_def pip_install_def
  show_tox_error_def rmtree_def venv_create_def delete_old_venv_def create_venv_def
  upgrade_pip_def pyqt_requirements_file_def install_pyqt_binary_def install_pyqt_source_def
  install_pyqt_link_def install_requirements_def install_qutebrowser_def path_div_def
  path_sep_def Let_def

theorem subprocess_failure_exits_witness:
  "run_venv failing_env ''.venv'' ''python3''
     [''-m'', ''pip'', ''install'', ''-r'', ''/repo/requirements.txt''] example_state =
     (Sys_exit 3,
      example_state\<lparr>trace :=
        [Subprocess_run [''.venv/bin/python3'', ''-m'', ''pip'', ''install'', ''-r'',
                         ''/repo/requirements.txt''],
         failure_message]\<rparr>) \<and>
   pip_install failing_env ''.venv'' [''-r'', ''/repo/requirements.txt''] example_state =
     (Sys_exit 3,
      example_state\<lparr>trace :=
        [Print_col ''venv$ pip install -r /repo/requirements.txt'' ''blue'',
         Subprocess_run [''.venv/bin/python3'', ''-m'', ''pip'', ''install'', ''-r'',
                         ''/repo/requirements.txt''],
         failure_message]\<rparr>) \<and>
   failed_at failing_env (trace (snd (main failing_env default_namespace example_state))) 15 3 \<and>
   fst (main failing_env default_namespace example_state) = Sys_exit 3 \<and>
   trace (snd (main failing_env default_namespace example_state)) =
     take 16 (trace (snd (main failing_env default_namespace example_state))) @ [failure_message]"
proof -
  let ?args = "[''-m'', ''pip'', ''install'', ''-r'', ''/repo/requirements.txt'']"
  let ?pargs = "[''-r'', ''/repo/requirements.txt'']"
  have h1: "subprocess_run failing_env (trace example_state)
              (venv_argv failing_env ''.venv'' ''python3'' ?args) = Exited 3 \<and> (3::int) \<noteq> 0"
    by (simp add: failing_env_def example_env_def venv_argv_def path_div_def path_sep_def)
  have h2: "subprocess_run failing_env
              (trace example_state @
               [Print_col (''venv$ pip install '' @ join '' '' ?pargs) ''blue''])
              (pip_argv failing_env ''.venv'' ?pargs) = Exited 3 \<and> (3::int) \<noteq> 0"
    by (simp add: failing_env_def example_env_def pip_argv_def venv_argv_def path_div_def
        path_sep_def)
  have tr: "trace (snd (main failing_env default_namespace example_state)) =
      [Change_cwd, Print_title ''Creating virtual environment'',
       Print_col ''$ rm -r .venv'' ''blue'', Rmtree ''.venv'',
       Print_col ''$ python3 -m venv .venv'' ''blue'', Venv_create ''.venv'' True,
       Print_title ''Upgrading pip'', Print_col ''venv$ pip install -U pip'' ''blue'',
       Subprocess_run [''.venv/bin/python3'', ''-m'', ''pip'', ''install'', ''-U'', ''pip''],
       Print_title ''Installing PyQt from binary'',
       Print_col ''No proprietary codec support will be available in qutebrowser.'' ''red'',
       Print_col ''venv$ pip install -r /repo/misc/requirements/requirements-pyqt.txt --only-binary PyQt5,PyQtWebEngine'' ''blue'',
       Subprocess_run [''.venv/bin/python3'', ''-m'', ''pip'', ''install'', ''-r'',
                       ''/repo/misc/requirements/requirements-pyqt.txt'', ''--only-binary'',
                       ''PyQt5,PyQtWebEngine''],
       Print_title ''Installing other qutebrowser dependencies'',
       Print_col ''venv$ pip install -r /repo/requirements.txt'' ''blue'',
       Subprocess_run [''.venv/bin/python3'', ''-m'', ''pip'', ''install'', ''-r'',
                       ''/repo/requirements.txt''],
       failure_message]"
    by (simp add: script_defs failing_env_def example_env_def default_namespace_def
        example_state_def failure_message_def)
  have h3: "length (trace example_state) \<le> 15 \<and>
            failed_at failing_env (trace (snd (main failing_env default_namespace example_state))) 15 3"
    unfolding tr
    by (simp add: failed_at_def failing_env_def example_env_def example_state_def)
  from subprocess_failure_exits [where env = failing_env and s = example_state and
      vd = "''.venv''" and exe = "''python3''" and args = ?args and pargs = ?pargs and
      rc = 3 and i = 15 and a = default_namespace] h1 h2 h3
  show ?thesis
    by (simp add: venv_argv_def pip_argv_def path_div_def path_sep_def failing_env_def
        example_env_def example_state_def)
qed

theorem main_step_order_witness:
  "\<not> keep default_namespace \<and> \<not> tox_error default_namespace \<and>
   pyqt_type default_namespace \<in> {''binary'', ''source'', ''link''} \<and>
   all_succeed example_env \<and>
   fst (main example_env default_namespace example_state) = Returned \<and>
   steps_of (trace (snd (main example_env default_namespace example_state))) =
     [Change_cwd, Rmtree ''.venv'', Venv_create ''.venv'' True,
      Subprocess_run [''.venv/bin/python3'', ''-m'', ''pip'', ''install'', ''-U'', ''pip''],
      Subprocess_run [''.venv/bin/python3'', ''-m'', ''pip'', ''install'', ''-r'',
                      ''/repo/misc/requirements/requirements-pyqt.txt'', ''--only-binary'',
                      ''PyQt5,PyQtWebEngine''],
      Subprocess_run [''.venv/bin/python3'', ''-m'', ''pip'', ''install'', ''-r'',
                      ''/repo/requirements.txt''],
      Subprocess_run [''.venv/bin/python3'', ''-m'', ''pip'', ''install'', ''-e'', ''/repo'']]"
proof -
  have k: "\<not> keep default_namespace" and x: "\<not> tox_error default_namespace"
    and t: "pyqt_type default_namespace \<in> {''binary'', ''source'', ''link''}"
    by (simp_all add: default_namespace_def)
  have ok: "all_succeed example_env"
    by (simp add: all_succeed_def example_env_def)
  have st: "fresh_steps example_env default_namespace (venv_dir default_namespace \<in> existing example_state) =
     [Change_cwd, Rmtree ''.venv'', Venv_create ''.venv'' True,
      Subprocess_run [''.venv/bin/python3'', ''-m'', ''pip'', ''install'', ''-U'', ''pip''],
      Subprocess_run [''.venv/bin/python3'', ''-m'', ''pip'', ''install'', ''-r'',
                      ''/repo/misc/requirements/requirements-pyqt.txt'', ''--only-binary'',
                      ''PyQt5,PyQtWebEngine''],
      Subprocess_run [''.venv/bin/python3'', ''-m'', ''pip'', ''install'', ''-r'',
                      ''/repo/requirements.txt''],
      Subprocess_run [''.venv/bin/python3'', ''-m'', ''pip'', ''install'', ''-e'', ''/repo'']]"
    by (simp add: fresh_steps_def install_steps_def pyqt_steps_def pip_argv_def venv_argv_def
        path_div_def path_sep_def pyqt_requirements_file_def default_namespace_def
        example_env_def example_state_def)
  have e: "trace example_state = []"
    by (simp add: example_state_def)
  from main_step_order [OF k x t, of example_env example_state] ok k x t
  show ?thesis
    unfolding st e by auto
qed

theorem keep_reuses_venv_witness:
  "keep (default_namespace\<lparr>keep := True\<rparr>) \<and>
   existing (snd (main example_env (default_namespace\<lparr>keep := True\<rparr>) example_state)) = {''.venv''} \<and>
   filter destroys
     (trace (snd (main example_env (default_namespace\<lparr>keep := True\<rparr>) example_state))) = [] \<and>
   steps_of (trace (snd (main example_env (default_namespace\<lparr>keep := True\<rparr>) example_state))) =
     [Change_cwd,
      Subprocess_run [''.venv/bin/python3'', ''-m'', ''pip'', ''install'', ''-U'', ''pip''],
      Subprocess_run [''.venv/bin/python3'', ''-m'', ''pip'', ''install'', ''-r'',
                      ''/repo/misc/requirements/requirements-pyqt.txt'', ''--only-binary'',
                      ''PyQt5,PyQtWebEngine''],
      Subprocess_run [''.venv/bin/python3'', ''-m'', ''pip'', ''install'', ''-r'',
                      ''/repo/requirements.txt''],
      Subprocess_run [''.venv/bin/python3'', ''-m'', ''pip'', ''install'', ''-e'', ''/repo'']]"
proof -
  let ?a = "default_namespace\<lparr>keep := True\<rparr>"
  have k: "keep ?a" by simp
  have x: "\<not> tox_error ?a \<and> pyqt_type ?a \<in> {''binary'', ''source'', ''link''}"
    by (simp add: default_namespace_def)
  have ok: "all_succeed example_env"
    by (simp add: all_succeed_def example_env_def)
  have st: "Change_cwd # install_steps example_env ?a =
     [Change_cwd,
      Subprocess_run [''.venv/bin/python3'', ''-m'', ''pip'', ''install'', ''-U'', ''pip''],
      Subprocess_run [''.venv/bin/python3'', ''-m'', ''pip'', ''install'', ''-r'',
                      ''/repo/misc/requirements/requirements-pyqt.txt'', ''--only-binary'',
                      ''PyQt5,PyQtWebEngine''],
      Subprocess_run [''.venv/bin/python3'', ''-m'', ''pip'', ''install'', ''-r'',
                      ''/repo/requirements.txt''],
      Subprocess_run [''.venv/bin/python3'', ''-m'', ''pip'', ''install'', ''-e'', ''/repo'']]"
    by (simp add: install_steps_def pyqt_steps_def pip_argv_def venv_argv_def
        path_div_def path_sep_def pyqt_requirements_file_def default_namespace_def
        example_env_def)
  have e: "trace example_state = []" "existing example_state = {''.venv''}"
    by (simp_all add: example_state_def)
  from keep_reuses_venv [OF k, of example_env example_state] x ok k
  show ?thesis
    unfolding st e by (auto simp: filter_empty_conv)
qed

subsection \<open>The command line\<close>

lemma collect_length: "collect rs = Inr xs \<Longrightarrow> length xs = length rs"
  by (induction rs arbitrary: xs rule: collect.induct) (auto split: sum.splits)

lemma sorted_by_set: "sorted_by f xs = Inr ys \<Longrightarrow> set ys = set xs"
proof -
  assume a: "sorted_by f xs = Inr ys"
  then obtain ks where c: "collect (map f xs) = Inr ks"
    and ys: "ys = map snd (sort_key fst (zip ks xs))"
    by (auto simp: sorted_by_def split: sum.splits)
  from collect_length [OF c] have l: "length ks = length xs" by simp
  have "set ys = snd ` set (zip ks xs)"
    by (simp add: ys)
  also have "\<dots> = set (map snd (zip ks xs))"
    by simp
  also from l have "\<dots> = set xs"
    by simp
  finally show ?thesis .
qed

lemma pyqt_versions_set:
  "pyqt_versions listing = Inr versions \<Longrightarrow>
   set versions = insert ''auto'' (version_of ` {req \<in> set listing. glob_match req})"
proof -
  assume a: "pyqt_versions listing = Inr versions"
  let ?vs = "py_set (map (\<lambda>req. last (py_split CHR ''-'' (stem req))) (filter glob_match listing))"
  from a obtain ys where s: "sorted_by version_key ?vs = Inr ys" and v: "versions = ys @ [''auto'']"
    by (auto simp: pyqt_versions_def Let_def split: sum.splits)
  from sorted_by_set [OF s] have "set ys = version_of ` {req \<in> set listing. glob_match req}"
    by (auto simp: py_set_def version_of_def)
  with v show ?thesis by simp
qed

lemma option_strings_parser:
  "set (all_option_strings (parser versions)) =
   {''-h'', ''--help'', ''--keep'', ''--venv-dir'', ''--pyqt-version'', ''--pyqt-type'',
    ''--tox-error''}"
  by (simp add: parser_def all_option_strings_def insert_commute)

lemma not_option: "\<not> startswith v ''-'' \<Longrightarrow> v \<notin> set (all_option_strings (parser versions))"
  unfolding option_strings_parser by (auto simp: startswith_def)

text \<open>The definitions that evaluate the parser on a command line.\<close>

lemmas parse_defs =
  parse_args_def in_fragment_def all_option_strings_def parser_def dest_def dest_of_def
  startswith_def setattr_str_def setattr_bool_def default_namespace_def

lemma parse_empty:
  "pyqt_versions listing = Inr versions \<Longrightarrow> parse_args listing [] = Parsed default_namespace"
  by (simp add: parse_defs)

lemma parse_keep:
  "pyqt_versions listing = Inr versions \<Longrightarrow>
   parse_args listing [''--keep''] = Parsed (default_namespace\<lparr>keep := True\<rparr>)"
  by (simp add: parse_defs)

lemma parse_tox_error:
  "pyqt_versions listing = Inr versions \<Longrightarrow>
   parse_args listing [''--tox-error''] = Parsed (default_namespace\<lparr>tox_error := True\<rparr>)"
  by (simp add: parse_defs)

lemma parse_help:
  "pyqt_versions listing = Inr versions \<Longrightarrow>
   parse_args listing [''-h''] = Help_exit \<and> parse_args listing [''--help''] = Help_exit"
  by (simp add: parse_defs)

lemma parse_venv_dir:
  "pyqt_versions listing = Inr versions \<Longrightarrow> \<not> startswith v ''-'' \<Longrightarrow>
   parse_args listing [''--venv-dir'', v] = Parsed (default_namespace\<lparr>venv_dir := v\<rparr>)"
  using not_option [of v versions] unfolding option_strings_parser
  by (simp add: parse_defs)

lemma parse_pyqt_version:
  "pyqt_versions listing = Inr versions \<Longrightarrow> \<not> startswith v ''-'' \<Longrightarrow>
   parse_args listing [''--pyqt-version'', v] =
     (if v \<in> set versions then Parsed (default_namespace\<lparr>pyqt_version := v\<rparr>) else Usage_error)"
  using not_option [of v versions] unfolding option_strings_parser
  by (simp add: parse_defs)

lemma parse_pyqt_type:
  "pyqt_versions listing = Inr versions \<Longrightarrow> \<not> startswith v ''-'' \<Longrightarrow>
   parse_args listing [''--pyqt-type'', v] =
     (if v \<in> {''binary'', ''source'', ''link''}
      then Parsed (default_namespace\<lparr>pyqt_type := v\<rparr>) else Usage_error)"
  using not_option [of v versions] unfolding option_strings_parser
  by (simp add: parse_defs)

lemma visible_parser:
  "visible_options (parser versions) =
   [''-h'', ''--help'', ''--keep'', ''--venv-dir'', ''--pyqt-version'', ''--pyqt-type'']"
  by (simp add: visible_options_def parser_def)

text \<open>
  Claim C5, as amended. When \<^verbatim>\<open>pyqt_versions()\<close> returns, its result holds exactly the
  versions named by the files matching \<^verbatim>\<open>requirements-pyqt-*.txt\<close>, and \<^verbatim>\<open>auto\<close>. A
  command line without arguments gives \<^verbatim>\<open>.venv\<close>, \<^verbatim>\<open>auto\<close> and \<^verbatim>\<open>binary\<close> (and no
  \<^verbatim>\<open>--keep\<close>, no \<^verbatim>\<open>--tox-error\<close>). For a value that does not begin with a dash:
  \<^verbatim>\<open>--venv-dir\<close> takes any value; \<^verbatim>\<open>--pyqt-version\<close> takes a value among those versions
  and is a usage error otherwise; \<^verbatim>\<open>--pyqt-type\<close> takes \<^verbatim>\<open>binary\<close>, \<^verbatim>\<open>source\<close> or
  \<^verbatim>\<open>link\<close> and is a usage error otherwise. These three are not the whole surface:
  \<^verbatim>\<open>--keep\<close> and \<^verbatim>\<open>--tox-error\<close> are accepted and set their flag, \<^verbatim>\<open>-h\<close> and
  \<^verbatim>\<open>--help\<close> show the help and end the process; the parser has these seven option
  strings, and its help shows all of them but \<^verbatim>\<open>--tox-error\<close>.
\<close>

theorem argument_surface:
  "pyqt_versions listing = Inr versions \<Longrightarrow> \<not> startswith v ''-'' \<Longrightarrow>
   set versions = insert ''auto'' (version_of ` {req \<in> set listing. glob_match req}) \<and>
   parse_args listing [] = Parsed default_namespace \<and>
   parse_args listing [''--venv-dir'', v] = Parsed (default_namespace\<lparr>venv_dir := v\<rparr>) \<and>
   parse_args listing [''--pyqt-version'', v] =
     (if v \<in> set versions then Parsed (default_namespace\<lparr>pyqt_version := v\<rparr>)
      else Usage_error) \<and>
   parse_args listing [''--pyqt-type'', v] =
     (if v \<in> {''binary'', ''source'', ''link''}
      then Parsed (default_namespace\<lparr>pyqt_type := v\<rparr>) else Usage_error) \<and>
   parse_args listing [''--keep''] = Parsed (default_namespace\<lparr>keep := True\<rparr>) \<and>
   parse_args listing [''--tox-error''] = Parsed (default_namespace\<lparr>tox_error := True\<rparr>) \<and>
   parse_args listing [''-h''] = Help_exit \<and>
   parse_args listing [''--help''] = Help_exit \<and>
   all_option_strings (parser versions) =
     [''-h'', ''--help'', ''--keep'', ''--venv-dir'', ''--pyqt-version'', ''--pyqt-type'',
      ''--tox-error''] \<and>
   visible_options (parser versions) =
     [''-h'', ''--help'', ''--keep'', ''--venv-dir'', ''--pyqt-version'', ''--pyqt-type'']"
proof -
  assume h: "pyqt_versions listing = Inr versions" and n: "\<not> startswith v ''-''"
  have "all_option_strings (parser versions) =
     [''-h'', ''--help'', ''--keep'', ''--venv-dir'', ''--pyqt-version'', ''--pyqt-type'',
      ''--tox-error'']"
    by (simp add: parser_def all_option_strings_def)
  with pyqt_versions_set [OF h] parse_empty [OF h] parse_venv_dir [OF h n]
    parse_pyqt_version [OF h n] parse_pyqt_type [OF h n] parse_keep [OF h]
    parse_tox_error [OF h] parse_help [OF h] visible_parser [of versions]
  show ?thesis by blast
qed

text \<open>The requirements directory of the example, and an empty one.\<close>

lemma example_versions:
  "pyqt_versions example_listing = Inr [''5.7'', ''5.14'', ''auto'']"
  by code_simp

lemma no_files_versions: "pyqt_versions [] = Inr [''auto'']"
  by (simp add: pyqt_versions_def py_set_def sorted_by_def)

theorem argument_surface_witness:
  "pyqt_versions example_listing = Inr [''5.7'', ''5.14'', ''auto''] \<and>
   \<not> startswith ''5.14'' ''-'' \<and>
   parse_args example_listing [] = Parsed default_namespace \<and>
   parse_args example_listing [''--venv-dir'', ''5.14''] =
     Parsed (default_namespace\<lparr>venv_dir := ''5.14''\<rparr>) \<and>
   parse_args example_listing [''--pyqt-version'', ''5.14''] =
     Parsed (default_namespace\<lparr>pyqt_version := ''5.14''\<rparr>) \<and>
   parse_args example_listing [''--pyqt-type'', ''5.14''] = Usage_error \<and>
   parse_args example_listing [''-h''] = Help_exit"
proof -
  have h: "pyqt_versions example_listing = Inr [''5.7'', ''5.14'', ''auto'']"
    by (rule example_versions)
  have n: "\<not> startswith ''5.14'' ''-''"
    by (simp add: startswith_def)
  from argument_surface [OF h n] h n show ?thesis
    by simp
qed

text \<open>
  The claim as stated fails: the three flags are not the whole surface. \<^verbatim>\<open>--keep\<close> is
  none of them, the help shows it, and the command line that consists of it is accepted
  and changes the namespace.
\<close>

theorem keep_flag_on_surface:
  "parse_args [] [] = Parsed default_namespace \<and>
   parse_args [] [''--keep''] = Parsed (default_namespace\<lparr>keep := True\<rparr>) \<and>
   ''--keep'' \<in> set (visible_options (parser [''auto''])) \<and>
   ''--keep'' \<notin> {''--venv-dir'', ''--pyqt-version'', ''--pyqt-type''}"
  using parse_empty [OF no_files_versions] parse_keep [OF no_files_versions]
  by (simp add: visible_parser)

end
